theory Spec2Isabelle
  imports Complex_Main
begin

section \<open>Evaluation driver of Where2comm: \<open>opencood/tools/inference.py\<close>\<close>

text \<open>
  The development embeds the two functions of \<open>inference.py\<close> that carry the evaluation
  logic: \<open>result2dict\<close> (the corner reordering of predicted boxes) and \<open>main\<close> (the
  per-frame evaluation loop and the report line). Python exceptions are values of the
  type \<open>error\<close>; a function that can raise returns \<open>error + 'a\<close>.
\<close>

datatype error = AssertionError | NotImplementedError | IndexError

subsection \<open>\<open>result2dict\<close>\<close>

text \<open>
  A box is an array of corner rows, a row an array of coordinates. The tensor handed to
  \<open>result2dict\<close> has three axes; its shape is kept beside the data because an empty
  tensor still has a shape. Coordinates are never computed with here, so their type is
  left open. Scores are a one-axis array.
\<close>

type_synonym 'a box = "'a list list"

record 'a ndarray3 =
  shape :: "nat \<times> nat \<times> nat"
  boxes :: "'a box list"

definition well_shaped :: "'a ndarray3 \<Rightarrow> bool" where
  "well_shaped t =
     (case shape t of (n, r, c) \<Rightarrow>
        length (boxes t) = n \<and>
        list_all (\<lambda>b. length b = r \<and> list_all (\<lambda>row. length row = c) b) (boxes t))"

record 'a output_dict =
  boxes_3d :: "'a ndarray3"
  scores_3d :: "real list"
  labels_3d :: "int list"

definition perm_pred :: "nat list" where
  "perm_pred = [0, 4, 7, 3, 1, 5, 6, 2]"

definition perm_label :: "nat list" where
  "perm_label = [3, 2, 1, 0, 7, 6, 5, 4]"

text \<open>
  \<open>b3d[perm]\<close> with a list of indices: numpy picks the rows in the order of the list and
  raises IndexError when an index is outside the first axis.
\<close>

definition take_rows :: "'r list \<Rightarrow> nat list \<Rightarrow> error + 'r list" where
  "take_rows b idx =
     (if list_all (\<lambda>i. i < length b) idx then Inr (map (\<lambda>i. b ! i) idx)
      else Inl IndexError)"

text \<open>\<open>score[i]\<close> on the score array, \<open>i\<close> coming from \<open>range\<close> and so never negative.\<close>

definition score_at :: "real list \<Rightarrow> nat \<Rightarrow> error + real" where
  "score_at score i = (if i < length score then Inr (score ! i) else Inl IndexError)"

text \<open>
  The body of the \<open>for i in range(box3d.shape[0])\<close> loop, for the box at index \<open>i\<close>: the
  reordered box and its score. With a score tensor the box is indexed by \<open>perm_label\<close>
  and the result by \<open>perm_pred\<close>; without one the box is left as it is and the score
  is \<open>1.0\<close>.
\<close>

definition convert_box :: "real list option \<Rightarrow> nat \<Rightarrow> 'a box \<Rightarrow> error + ('a box \<times> real)" where
  "convert_box score_tensor i b =
     (case score_tensor of
        None \<Rightarrow> Inr (b, 1)
      | Some score \<Rightarrow>
          (case take_rows b perm_label of
             Inl e \<Rightarrow> Inl e
           | Inr b1 \<Rightarrow>
               (case take_rows b1 perm_pred of
                  Inl e \<Rightarrow> Inl e
                | Inr b3d \<Rightarrow>
                    (case score_at score i of
                       Inl e \<Rightarrow> Inl e
                     | Inr sc \<Rightarrow> Inr (b3d, sc)))))"

text \<open>
  The loop, with the three lists it appends to as the accumulator
  \<open>(boxes_3d, scores_3d, labels_3d)\<close>.
\<close>

fun convert_loop ::
  "real list option \<Rightarrow> nat \<Rightarrow> 'a box list \<Rightarrow> 'a box list \<times> real list \<times> int list
     \<Rightarrow> error + ('a box list \<times> real list \<times> int list)" where
  "convert_loop score_tensor i [] acc = Inr acc"
| "convert_loop score_tensor i (b # bs) (B, S, L) =
     (case convert_box score_tensor i b of
        Inl e \<Rightarrow> Inl e
      | Inr (b3d, sc) \<Rightarrow> convert_loop score_tensor (Suc i) bs (B @ [b3d], S @ [sc], L @ [2]))"

text \<open>
  \<open>np.concatenate\<close> of the collected \<open>(1, r, c)\<close> slices gives shape \<open>(n, r, c)\<close>, where
  \<open>r\<close> is 8 after the reordering and the input's second axis otherwise. With nothing
  collected the result is \<open>np.ones((0, 8, 3))\<close> and two \<open>np.zeros((0))\<close>.
\<close>

definition result2dict :: "'a ndarray3 \<Rightarrow> real list option \<Rightarrow> error + 'a output_dict" where
  "result2dict box3d_tensor score_tensor =
     (case convert_loop score_tensor 0 (boxes box3d_tensor) ([], [], []) of
        Inl e \<Rightarrow> Inl e
      | Inr (B, S, L) \<Rightarrow>
          (if length B > 0 then
             Inr \<lparr>boxes_3d =
                    \<lparr>shape = (length B,
                              (if score_tensor = None then fst (snd (shape box3d_tensor))
                               else length perm_pred),
                              snd (snd (shape box3d_tensor))),
                     boxes = B\<rparr>,
                  scores_3d = S, labels_3d = L\<rparr>
           else
             Inr \<lparr>boxes_3d = \<lparr>shape = (0, 8, 3), boxes = []\<rparr>,
                  scores_3d = [], labels_3d = []\<rparr>))"

subsection \<open>Options, configuration and collaborators of \<open>main\<close>\<close>

text \<open>The namespace returned by \<open>test_parser\<close>.\<close>

record options =
  model_dir :: string
  fusion_method :: string
  save_vis_n :: int
  save_npy :: bool
  eval_epoch :: "string option"
  comm_thre :: "real option"

text \<open>
  The entries of the configuration dictionary that \<open>main\<close> reads or writes:
  \<open>hypes['test_dir']\<close>, \<open>hypes['validate_dir']\<close>, the communication threshold
  \<open>hypes['model']['args']['fusion_args']['communication']['thre']\<close> and
  \<open>hypes['postprocess']['gt_range']\<close>. The configuration is taken to have these entries.
\<close>

record hypes =
  test_dir :: string
  validate_dir :: string
  communication_thre :: "real option"
  gt_range :: "real list"

text \<open>
  One batch of the data loader (batch size 1). \<open>sample_idx\<close> is
  \<open>batch_data['ego']['sample_idx']\<close>, \<open>origin_lidar\<close> is
  \<open>batch_data['ego']['origin_lidar'][0]\<close>, \<open>content\<close> is everything else. Tensors are
  opaque values of type \<open>'t\<close>.
\<close>

record ('t, 'c) batch =
  sample_idx :: int
  origin_lidar :: 't
  content :: 'c

text \<open>
  The accumulator \<open>result_stat\<close>: a dictionary from IoU threshold to the lists \<open>tp\<close>,
  \<open>fp\<close> and the count \<open>gt\<close>. What \<open>caluclate_tp_fp\<close> appends to the lists is its own
  business: the entries have type \<open>'e\<close>.
\<close>

record 'e threshold_stat =
  tp :: "'e list"
  fp :: "'e list"
  gt :: int

type_synonym 'e result_stat = "real \<rightharpoonup> 'e threshold_stat"

text \<open>
  What the run leaves on disk besides the report: the calls
  \<open>save_prediction_gt(pred, score, gt, lidar, frame_id, path)\<close> and
  \<open>visualize(pred, gt, lidar, gt_range, path, method, left_hand, vis_pred_box=True)\<close>,
  in the order they are made.
\<close>

datatype 't artifact =
    SavedPredictionGt 't 't 't 't int string
  | Visualized 't 't 't "real list" string string bool

text \<open>
  The functions \<open>main\<close> calls that live in other modules (\<open>yaml_utils\<close>, \<open>train_utils\<close>,
  \<open>inference_utils\<close>, \<open>eval_utils\<close>, the dataset and the data loader). The epoch
  identifier returned by \<open>load_saved_model\<close> is kept as the text that \<open>'{}'.format\<close>
  prints for it; the third argument of \<open>load_saved_model\<close> is \<open>None\<close> for the
  two-argument call. The communication rate returned by the fifth pipeline is a
  zero-dimensional \<open>float32\<close> tensor, kept as the real number it stands for.
\<close>

record ('t, 'c, 'm, 'd, 'e) collaborators =
  load_yaml :: "options \<Rightarrow> hypes"
  build_dataset :: "hypes \<Rightarrow> 'd"
  data_loader :: "'d \<Rightarrow> ('t, 'c) batch list"
  create_model :: "hypes \<Rightarrow> 'm"
  load_saved_model :: "string \<Rightarrow> 'm \<Rightarrow> string option \<Rightarrow> string \<times> 'm"
  inference_late_fusion :: "('t, 'c) batch \<Rightarrow> 'm \<Rightarrow> 'd \<Rightarrow> 't option \<times> 't \<times> 't"
  inference_early_fusion :: "('t, 'c) batch \<Rightarrow> 'm \<Rightarrow> 'd \<Rightarrow> 't option \<times> 't \<times> 't"
  inference_intermediate_fusion :: "('t, 'c) batch \<Rightarrow> 'm \<Rightarrow> 'd \<Rightarrow> 't option \<times> 't \<times> 't"
  inference_no_fusion :: "('t, 'c) batch \<Rightarrow> 'm \<Rightarrow> 'd \<Rightarrow> 't option \<times> 't \<times> 't"
  inference_intermediate_fusion_withcomm ::
    "('t, 'c) batch \<Rightarrow> 'm \<Rightarrow> 'd \<Rightarrow> 't option \<times> 't \<times> 't \<times> real"
  caluclate_tp_fp :: "'t \<Rightarrow> 't \<Rightarrow> 't \<Rightarrow> 'e result_stat \<Rightarrow> real \<Rightarrow> 'e result_stat"
  eval_final_results :: "'e result_stat \<Rightarrow> string \<Rightarrow> real \<times> real \<times> real"

subsection \<open>Strings and paths\<close>

text \<open>Python's \<open>p in s\<close> on strings.\<close>

fun str_contains :: "string \<Rightarrow> string \<Rightarrow> bool" where
  "str_contains p [] = (p = [])"
| "str_contains p (c # cs) = (take (length p) (c # cs) = p \<or> str_contains p cs)"

text \<open>\<open>os.path.join(a, b)\<close> on POSIX paths.\<close>

definition os_path_join :: "string \<Rightarrow> string \<Rightarrow> string" where
  "os_path_join a b =
     (if take 1 b = ''/'' then b
      else if a = [] \<or> last a = CHR ''/'' then a @ b
      else a @ ''/'' @ b)"

text \<open>\<open>'%05d' % n\<close>: decimal digits, zero-padded to width 5, the sign counted in the width.\<close>

fun dec_digits :: "nat \<Rightarrow> string" where
  "dec_digits n =
     (if n < 10 then [''0123456789'' ! n]
      else dec_digits (n div 10) @ [''0123456789'' ! (n mod 10)])"

declare dec_digits.simps [simp del]

definition zero_pad :: "nat \<Rightarrow> string \<Rightarrow> string" where
  "zero_pad w s = replicate (w - length s) CHR ''0'' @ s"

definition format_05d :: "int \<Rightarrow> string" where
  "format_05d n =
     (if n < 0 then ''-'' @ zero_pad 4 (dec_digits (nat (- n)))
      else zero_pad 5 (dec_digits (nat n)))"

subsection \<open>Numbers: fixed-point formatting and \<open>float32\<close> arithmetic\<close>

text \<open>Rounding a non-negative real to the nearest integer, a tie going to the even one.\<close>

definition round_half_even :: "real \<Rightarrow> int" where
  "round_half_even y =
     (let f = \<lfloor>y\<rfloor>; d = y - of_int f
      in if d < 1/2 then f else if 1/2 < d then f + 1 else if even f then f else f + 1)"

text \<open>
  \<open>'{:.0Nf}'.format(x)\<close> for a finite float \<open>x\<close>, given as the real number it stands for:
  the value is rounded correctly to \<open>N\<close> decimals (ties to even) and printed with its
  sign, its integer digits, a point and exactly \<open>N\<close> fraction digits. The integer 0 that
  \<open>main\<close> formats when there is no sample prints as the float 0.0 does.
\<close>

definition format_f :: "nat \<Rightarrow> real \<Rightarrow> string" where
  "format_f n x =
     (let m = nat (round_half_even (\<bar>x\<bar> * 10 ^ n))
      in (if x < 0 then ''-'' else []) @ dec_digits (m div 10 ^ n) @
         (if n = 0 then [] else ''.'' @ zero_pad n (dec_digits (m mod 10 ^ n))))"

text \<open>
  IEEE 754 binary32 with round-to-nearest-even, which is the arithmetic of \<open>float32\<close>
  tensors: 24 significant bits, exponents from -126 to 127, gradual underflow. The
  exponent of a positive real is found by halving or doubling it into \<open>[1, 2)\<close>, at most
  127 and 126 times. Overflow to infinity is outside the model: the sums formed here stay
  below \<open>2^128\<close>.
\<close>

fun halvings :: "nat \<Rightarrow> real \<Rightarrow> nat" where
  "halvings k a = (if k = 0 \<or> a < 2 then 0 else 1 + halvings (k - 1) (a / 2))"

fun doublings :: "nat \<Rightarrow> real \<Rightarrow> nat" where
  "doublings k a = (if k = 0 \<or> 1 \<le> a then 0 else 1 + doublings (k - 1) (2 * a))"

definition pow2 :: "int \<Rightarrow> real" where
  "pow2 e = (if 0 \<le> e then 2 ^ nat e else 1 / 2 ^ nat (- e))"

definition f32_exponent :: "real \<Rightarrow> int" where
  "f32_exponent a = (if 1 \<le> a then int (halvings 127 a) else - int (doublings 126 a))"

definition f32_round :: "real \<Rightarrow> real" where
  "f32_round x =
     (if x = 0 then 0
      else let a = \<bar>x\<bar>; q = pow2 (f32_exponent a - 23)
           in (if x < 0 then - 1 else 1) * (of_int (round_half_even (a / q)) * q))"

text \<open>\<open>s + t\<close> on two \<open>float32\<close> tensors.\<close>

definition f32_add :: "real \<Rightarrow> real \<Rightarrow> real" where
  "f32_add x y = f32_round (x + y)"

text \<open>\<open>s / n\<close> for a \<open>float32\<close> tensor and a Python integer, which is converted first.\<close>

definition f32_div :: "real \<Rightarrow> nat \<Rightarrow> real" where
  "f32_div x n = f32_round (x / f32_round (real n))"

subsection \<open>The evaluation loop of \<open>main\<close>\<close>

definition supported_fusion_methods :: "string list" where
  "supported_fusion_methods =
     [''late'', ''early'', ''intermediate'', ''intermediate_with_comm'', ''no'']"

definition empty_stat :: "'e threshold_stat" where
  "empty_stat = \<lparr>tp = [], fp = [], gt = 0\<rparr>"

definition initial_result_stat :: "'e result_stat" where
  "initial_result_stat = [3/10 \<mapsto> empty_stat, 1/2 \<mapsto> empty_stat, 7/10 \<mapsto> empty_stat]"

text \<open>The variables the loop updates: \<open>result_stat\<close>, \<open>total_comm_rates\<close>, and the files written.\<close>

record ('t, 'e) eval_state =
  result_stat :: "'e result_stat"
  total_comm_rates :: "real list"
  artifacts :: "'t artifact list"

text \<open>
  The \<open>if\<close>/\<open>elif\<close> chain on \<open>opt.fusion_method\<close>: the chosen pipeline's
  \<open>(pred_box_tensor, pred_score, gt_box_tensor)\<close>, with the communication rate appended
  to \<open>total_comm_rates\<close> in the \<open>intermediate_with_comm\<close> branch.
\<close>

definition run_fusion ::
  "('t, 'c, 'm, 'd, 'e) collaborators \<Rightarrow> string \<Rightarrow> 'm \<Rightarrow> 'd \<Rightarrow> ('t, 'c) batch
     \<Rightarrow> ('t, 'e) eval_state \<Rightarrow> error + (('t option \<times> 't \<times> 't) \<times> ('t, 'e) eval_state)" where
  "run_fusion env fm model ds batch_data st =
     (if fm = ''late'' then Inr (inference_late_fusion env batch_data model ds, st)
      else if fm = ''early'' then Inr (inference_early_fusion env batch_data model ds, st)
      else if fm = ''intermediate'' then
        Inr (inference_intermediate_fusion env batch_data model ds, st)
      else if fm = ''no'' then Inr (inference_no_fusion env batch_data model ds, st)
      else if fm = ''intermediate_with_comm'' then
        (case inference_intermediate_fusion_withcomm env batch_data model ds of
           (p, s, g, comm_rates) \<Rightarrow>
             Inr ((p, s, g), st\<lparr>total_comm_rates := total_comm_rates st @ [comm_rates]\<rparr>))
      else Inl NotImplementedError)"

text \<open>The three calls of \<open>caluclate_tp_fp\<close> on the shared dictionary, in source order.\<close>

definition accumulate ::
  "('t, 'c, 'm, 'd, 'e) collaborators \<Rightarrow> 't \<Rightarrow> 't \<Rightarrow> 't \<Rightarrow> 'e result_stat \<Rightarrow> 'e result_stat" where
  "accumulate env p s g rs =
     caluclate_tp_fp env p s g
       (caluclate_tp_fp env p s g
          (caluclate_tp_fp env p s g rs (3/10)) (1/2)) (7/10)"

text \<open>The two \<open>simple_vis.visualize\<close> calls of one frame.\<close>

definition visualizations ::
  "options \<Rightarrow> hypes \<Rightarrow> bool \<Rightarrow> int \<Rightarrow> 't \<Rightarrow> 't \<Rightarrow> 't \<Rightarrow> 't artifact list" where
  "visualizations opt hyp left_hand frame_id p g lidar =
     [Visualized p g lidar (gt_range hyp)
        (os_path_join (model_dir opt) (''vis_3d/3d_'' @ format_05d frame_id @ ''.png''))
        ''3d'' left_hand,
      Visualized p g lidar (gt_range hyp)
        (os_path_join (model_dir opt) (''vis_bev/bev_'' @ format_05d frame_id @ ''.png''))
        ''bev'' left_hand]"

text \<open>
  One iteration of \<open>for i, batch_data in enumerate(data_loader)\<close>. \<open>continue\<close> on a
  \<open>None\<close> prediction returns the state as the pipeline call left it.
\<close>

definition process_frame ::
  "('t, 'c, 'm, 'd, 'e) collaborators \<Rightarrow> options \<Rightarrow> hypes \<Rightarrow> bool \<Rightarrow> bool \<Rightarrow> 'm \<Rightarrow> 'd
     \<Rightarrow> nat \<Rightarrow> ('t, 'c) batch \<Rightarrow> ('t, 'e) eval_state \<Rightarrow> error + ('t, 'e) eval_state" where
  "process_frame env opt hyp test_inference left_hand model ds i batch_data st =
     (let frame_id = sample_idx batch_data in
      case run_fusion env (fusion_method opt) model ds batch_data st of
        Inl e \<Rightarrow> Inl e
      | Inr ((pred_box_tensor, pred_score, gt_box_tensor), st1) \<Rightarrow>
          (case pred_box_tensor of
             None \<Rightarrow> Inr st1
           | Some p \<Rightarrow>
               let st2 = (if \<not> test_inference
                          then st1\<lparr>result_stat :=
                                     accumulate env p pred_score gt_box_tensor (result_stat st1)\<rparr>
                          else st1);
                   st3 = (if save_npy opt
                          then st2\<lparr>artifacts := artifacts st2 @
                                 [SavedPredictionGt p pred_score gt_box_tensor
                                    (origin_lidar batch_data) frame_id
                                    (os_path_join (model_dir opt) ''npy'')]\<rparr>
                          else st2);
                   st4 = (if save_vis_n opt \<noteq> 0 \<and> save_vis_n opt > int i
                          then st3\<lparr>artifacts := artifacts st3 @
                                 visualizations opt hyp left_hand frame_id p gt_box_tensor
                                   (origin_lidar batch_data)\<rparr>
                          else st3)
               in Inr st4))"

fun inference_loop ::
  "('t, 'c, 'm, 'd, 'e) collaborators \<Rightarrow> options \<Rightarrow> hypes \<Rightarrow> bool \<Rightarrow> bool \<Rightarrow> 'm \<Rightarrow> 'd
     \<Rightarrow> nat \<Rightarrow> ('t, 'c) batch list \<Rightarrow> ('t, 'e) eval_state \<Rightarrow> error + ('t, 'e) eval_state" where
  "inference_loop env opt hyp test_inference left_hand model ds i [] st = Inr st"
| "inference_loop env opt hyp test_inference left_hand model ds i (batch_data # rest) st =
     (case process_frame env opt hyp test_inference left_hand model ds i batch_data st of
        Inl e \<Rightarrow> Inl e
      | Inr st' \<Rightarrow> inference_loop env opt hyp test_inference left_hand model ds (Suc i) rest st')"

subsection \<open>\<open>main\<close>\<close>

text \<open>Lines 91 to 96: the configuration, with the threshold override and \<open>validate_dir\<close>.\<close>

definition load_hypes :: "('t, 'c, 'm, 'd, 'e) collaborators \<Rightarrow> options \<Rightarrow> hypes" where
  "load_hypes env opt =
     (let hyp = load_yaml env opt;
          hyp = (case comm_thre opt of
                   None \<Rightarrow> hyp
                 | Some c \<Rightarrow> hyp\<lparr>communication_thre := Some c\<rparr>)
      in hyp\<lparr>validate_dir := test_dir hyp\<rparr>)"

text \<open>Lines 116 to 128: the model and the epoch identifier of the checkpoint.\<close>

definition load_model ::
  "('t, 'c, 'm, 'd, 'e) collaborators \<Rightarrow> options \<Rightarrow> hypes \<Rightarrow> string \<times> 'm" where
  "load_model env opt hyp =
     (let model = create_model env hyp; saved_path = model_dir opt in
      case eval_epoch opt of
        Some epoch_id \<Rightarrow> load_saved_model env saved_path model (Some epoch_id)
      | None \<Rightarrow> load_saved_model env saved_path model None)"

text \<open>
  Lines 237 to 240. \<open>sum\<close> adds the tensors from left to right, starting from the
  integer 0, each addition in \<open>float32\<close>; the division by \<open>len\<close> is in \<open>float32\<close> too, and
  \<open>.item()\<close> returns the value of the result unchanged.
\<close>

definition mean_comm_rate :: "real list \<Rightarrow> real" where
  "mean_comm_rate rates =
     (if length rates > 0 then f32_div (foldl f32_add 0 rates) (length rates) else 0)"

text \<open>Lines 244 to 246: the message written to \<open>result.txt\<close>.\<close>

definition report_line ::
  "options \<Rightarrow> string \<Rightarrow> real \<Rightarrow> real \<Rightarrow> real \<Rightarrow> real \<Rightarrow> string" where
  "report_line opt epoch_id ap_30 ap_50 ap_70 comm_rates =
     (let msg = ''Epoch: '' @ epoch_id @ '' | AP @0.3: '' @ format_f 4 ap_30 @
                '' | AP @0.5: '' @ format_f 4 ap_50 @
                '' | AP @0.7: '' @ format_f 4 ap_70 @
                '' | comm_rate: '' @ format_f 6 comm_rates @ [CHR 0x0A]
      in case comm_thre opt of
           None \<Rightarrow> msg
         | Some thre \<Rightarrow>
             ''Epoch: '' @ epoch_id @ '' | AP @0.3: '' @ format_f 4 ap_30 @
             '' | AP @0.5: '' @ format_f 4 ap_50 @
             '' | AP @0.7: '' @ format_f 4 ap_70 @
             '' | comm_rate: '' @ format_f 6 comm_rates @
             '' | comm_thre: '' @ format_f 4 thre @ [CHR 0x0A])"

text \<open>
  What a run that reaches its end has produced: the accumulator, the three AP values,
  the mean communication rate, the files written by the loop, and the content of
  \<open>result.txt\<close> (opened in append mode).
\<close>

record ('t, 'e) run_result =
  final_stat :: "'e result_stat"
  ap_30 :: real
  ap_50 :: real
  ap_70 :: real
  comm_rate :: real
  saved :: "'t artifact list"
  result_txt :: string

definition main ::
  "('t, 'c, 'm, 'd, 'e) collaborators \<Rightarrow> options \<Rightarrow> string \<Rightarrow> error + ('t, 'e) run_result" where
  "main env opt old_result_txt =
     (if fusion_method opt \<notin> set supported_fusion_methods then Inl AssertionError
      else
        let hyp = load_hypes env opt;
            test_inference = str_contains ''test.json'' (test_dir hyp);
            left_hand = str_contains ''OPV2V'' (test_dir hyp);
            opencood_dataset = build_dataset env hyp;
            loader = data_loader env opencood_dataset;
            epoch_id = fst (load_model env opt hyp);
            model = snd (load_model env opt hyp);
            st0 = \<lparr>result_stat = initial_result_stat, total_comm_rates = [], artifacts = []\<rparr>
        in case inference_loop env opt hyp test_inference left_hand model opencood_dataset
                  0 loader st0 of
             Inl e \<Rightarrow> Inl e
           | Inr st \<Rightarrow>
               let comm_rates = mean_comm_rate (total_comm_rates st) in
               (case eval_final_results env (result_stat st) (model_dir opt) of
                  (ap30, ap50, ap70) \<Rightarrow>
                    Inr \<lparr>final_stat = result_stat st,
                         ap_30 = ap30, ap_50 = ap50, ap_70 = ap70,
                         comm_rate = comm_rates,
                         saved = artifacts st,
                         result_txt = old_result_txt @
                           report_line opt epoch_id ap30 ap50 ap70 comm_rates\<rparr>))"

section \<open>Auxiliary notions for the statements\<close>

text \<open>
  The composition that \<open>b3d[perm_label][perm_pred]\<close> performs: output row \<open>j\<close> is input
  row \<open>perm_label[perm_pred[j]]\<close>.
\<close>

definition reorder :: "'r list \<Rightarrow> 'r list" where
  "reorder b = map (\<lambda>j. b ! (perm_label ! (perm_pred ! j))) [0..<8]"

text \<open>A box whose eight corners are told apart by their first coordinate.\<close>

definition box0 :: "nat box" where
  "box0 = [[0, 0, 0], [1, 0, 0], [2, 0, 0], [3, 0, 0], [4, 0, 0], [5, 0, 0], [6, 0, 0], [7, 0, 0]]"

text \<open>
  What one call of the \<open>if\<close>/\<open>elif\<close> chain yields for a batch, read off \<open>run_fusion\<close>
  started on an empty state: the pipeline's triple and the communication rates it
  appended (one in the \<open>intermediate_with_comm\<close> branch, none otherwise).
\<close>

definition fusion_result ::
  "('t, 'c, 'm, 'd, 'e) collaborators \<Rightarrow> string \<Rightarrow> 'm \<Rightarrow> 'd \<Rightarrow> ('t, 'c) batch
     \<Rightarrow> error + (('t option \<times> 't \<times> 't) \<times> real list)" where
  "fusion_result env fm model ds b =
     (case run_fusion env fm model ds b
             \<lparr>result_stat = Map.empty, total_comm_rates = [], artifacts = []\<rparr> of
        Inl e \<Rightarrow> Inl e
      | Inr (out, st) \<Rightarrow> Inr (out, total_comm_rates st))"

text \<open>The effect of one iteration on \<open>result_stat\<close>, given the pipeline's result.\<close>

definition stat_after ::
  "('t, 'c, 'm, 'd, 'e) collaborators \<Rightarrow> bool \<Rightarrow> ('t option \<times> 't \<times> 't) \<times> real list
     \<Rightarrow> 'e result_stat \<Rightarrow> 'e result_stat" where
  "stat_after env test_inference res rs =
     (case res of
        ((Some p, s, g), cs) \<Rightarrow> if test_inference then rs else accumulate env p s g rs
      | ((None, s, g), cs) \<Rightarrow> rs)"

text \<open>The files one iteration writes, given the pipeline's result.\<close>

definition frame_artifacts ::
  "options \<Rightarrow> hypes \<Rightarrow> bool \<Rightarrow> nat \<Rightarrow> ('t, 'c) batch \<Rightarrow> ('t option \<times> 't \<times> 't) \<times> real list
     \<Rightarrow> 't artifact list" where
  "frame_artifacts opt hyp left_hand i b res =
     (case res of
        ((Some p, s, g), cs) \<Rightarrow>
          (if save_npy opt
           then [SavedPredictionGt p s g (origin_lidar b) (sample_idx b)
                   (os_path_join (model_dir opt) ''npy'')]
           else []) @
          (if save_vis_n opt \<noteq> 0 \<and> save_vis_n opt > int i
           then visualizations opt hyp left_hand (sample_idx b) p g (origin_lidar b)
           else [])
      | ((None, s, g), cs) \<Rightarrow> [])"

text \<open>The pipeline results of all batches, in loader order; the first error ends the run.\<close>

fun frame_results ::
  "('t, 'c, 'm, 'd, 'e) collaborators \<Rightarrow> string \<Rightarrow> 'm \<Rightarrow> 'd \<Rightarrow> ('t, 'c) batch list
     \<Rightarrow> error + (('t option \<times> 't \<times> 't) \<times> real list) list" where
  "frame_results env fm model ds [] = Inr []"
| "frame_results env fm model ds (b # bs) =
     (case fusion_result env fm model ds b of
        Inl e \<Rightarrow> Inl e
      | Inr r \<Rightarrow>
          (case frame_results env fm model ds bs of
             Inl e \<Rightarrow> Inl e
           | Inr rs \<Rightarrow> Inr (r # rs)))"

text \<open>The files of all iterations, the loop index starting at \<open>i\<close>.\<close>

fun loop_artifacts ::
  "options \<Rightarrow> hypes \<Rightarrow> bool \<Rightarrow> nat
     \<Rightarrow> (('t, 'c) batch \<times> (('t option \<times> 't \<times> 't) \<times> real list)) list \<Rightarrow> 't artifact list" where
  "loop_artifacts opt hyp left_hand i [] = []"
| "loop_artifacts opt hyp left_hand i ((b, res) # rest) =
     frame_artifacts opt hyp left_hand i b res @ loop_artifacts opt hyp left_hand (Suc i) rest"

text \<open>
  Names for the local variables of \<open>main\<close>: the dataset, the batches of the loader, the
  restored model, the flag \<open>test_inference\<close>, and the pipeline results of the run.
\<close>

definition run_dataset :: "('t, 'c, 'm, 'd, 'e) collaborators \<Rightarrow> options \<Rightarrow> 'd" where
  "run_dataset env opt = build_dataset env (load_hypes env opt)"

definition run_frames :: "('t, 'c, 'm, 'd, 'e) collaborators \<Rightarrow> options \<Rightarrow> ('t, 'c) batch list" where
  "run_frames env opt = data_loader env (run_dataset env opt)"

definition run_model :: "('t, 'c, 'm, 'd, 'e) collaborators \<Rightarrow> options \<Rightarrow> 'm" where
  "run_model env opt = snd (load_model env opt (load_hypes env opt))"

definition run_test_inference :: "('t, 'c, 'm, 'd, 'e) collaborators \<Rightarrow> options \<Rightarrow> bool" where
  "run_test_inference env opt = str_contains ''test.json'' (test_dir (load_hypes env opt))"

definition run_results ::
  "('t, 'c, 'm, 'd, 'e) collaborators \<Rightarrow> options
     \<Rightarrow> error + (('t option \<times> 't \<times> 't) \<times> real list) list" where
  "run_results env opt =
     frame_results env (fusion_method opt) (run_model env opt) (run_dataset env opt)
       (run_frames env opt)"


text \<open>
  The triple \<open>(pred_box_tensor, pred_score, gt_box_tensor)\<close> that the pipeline named by
  a supported fusion method returns for a batch, written out method by method.
\<close>

definition pipeline_output ::
  "('t, 'c, 'm, 'd, 'e) collaborators \<Rightarrow> string \<Rightarrow> ('t, 'c) batch \<Rightarrow> 'm \<Rightarrow> 'd
     \<Rightarrow> 't option \<times> 't \<times> 't" where
  "pipeline_output env fm b model ds =
     (if fm = ''late'' then inference_late_fusion env b model ds
      else if fm = ''early'' then inference_early_fusion env b model ds
      else if fm = ''intermediate'' then inference_intermediate_fusion env b model ds
      else if fm = ''no'' then inference_no_fusion env b model ds
      else case inference_intermediate_fusion_withcomm env b model ds of
             (p, s, g, c) \<Rightarrow> (p, s, g))"

text \<open>
  The communication rates a run has to average: one per batch of the loader under
  \<open>intermediate_with_comm\<close>, none under any other method.
\<close>

definition comm_samples ::
  "('t, 'c, 'm, 'd, 'e) collaborators \<Rightarrow> string \<Rightarrow> 'm \<Rightarrow> 'd \<Rightarrow> ('t, 'c) batch list
     \<Rightarrow> real list" where
  "comm_samples env fm model ds bs =
     (if fm = ''intermediate_with_comm''
      then map (\<lambda>b. case inference_intermediate_fusion_withcomm env b model ds of
                      (p, s, g, c) \<Rightarrow> c) bs
      else [])"

text \<open>
  Modelled from the spec: \<open>caluclate_tp_fp\<close> of \<open>opencood/utils/eval_utils.py\<close>, which is
  not among the sources. By sections 4.3 and 4.4 of the specification it classifies the
  detections of one frame at the given IoU threshold and records the outcome under that
  threshold and no other: the flags are appended to the threshold's \<open>tp\<close> and \<open>fp\<close>
  lists and the number of ground-truth boxes of the frame is added to its \<open>gt\<close>. The
  classification itself (IoU matching) is the parameter \<open>classify\<close>. A threshold that is
  not a key of the dictionary does not occur in \<open>main\<close>; the dictionary is then returned
  as it is.
\<close>

definition record_tp_fp ::
  "('t \<Rightarrow> 't \<Rightarrow> 't \<Rightarrow> real \<Rightarrow> 'e list \<times> 'e list \<times> int)
     \<Rightarrow> 't \<Rightarrow> 't \<Rightarrow> 't \<Rightarrow> 'e result_stat \<Rightarrow> real \<Rightarrow> 'e result_stat" where
  "record_tp_fp classify p s g rs t =
     (case rs t of
        None \<Rightarrow> rs
      | Some e \<Rightarrow>
          (case classify p s g t of
             (tps, fps, n) \<Rightarrow> rs(t \<mapsto> \<lparr>tp = tp e @ tps, fp = fp e @ fps, gt = gt e + n\<rparr>)))"

text \<open>A batch for which the pipeline returned \<open>None\<close> as the predicted boxes.\<close>

definition no_prediction ::
  "('t, 'c, 'm, 'd, 'e) collaborators \<Rightarrow> string \<Rightarrow> 'm \<Rightarrow> 'd \<Rightarrow> ('t, 'c) batch \<Rightarrow> bool" where
  "no_prediction env fm model ds b =
     (case fusion_result env fm model ds b of
        Inr ((None, s, g), cs) \<Rightarrow> True
      | _ \<Rightarrow> False)"

subsection \<open>A small concrete run\<close>

text \<open>
  Three batches with tensors as numbers. Every pipeline predicts from the point cloud
  alone and returns \<open>None\<close> for the second batch; the fifth pipeline reports the rates
  0.25, 1 and 0.25. The frame classifier marks the prediction as one true positive and
  counts one ground truth; the stand-in for \<open>eval_final_results\<close> reports the three
  ground-truth counts.
\<close>

definition demo_hypes :: hypes where
  "demo_hypes = \<lparr>test_dir = ''dataset/val'', validate_dir = [], communication_thre = None,
                  gt_range = [0, 100]\<rparr>"

definition demo_frames :: "(nat, unit) batch list" where
  "demo_frames = [\<lparr>sample_idx = 3, origin_lidar = 30, content = ()\<rparr>,
                  \<lparr>sample_idx = 4, origin_lidar = 40, content = ()\<rparr>,
                  \<lparr>sample_idx = 5, origin_lidar = 50, content = ()\<rparr>]"

definition demo_pipeline :: "(nat, unit) batch \<Rightarrow> nat option \<times> nat \<times> nat" where
  "demo_pipeline b =
     (if origin_lidar b = 40 then None else Some (origin_lidar b + 1), 9, origin_lidar b)"

definition demo_classify :: "nat \<Rightarrow> nat \<Rightarrow> nat \<Rightarrow> real \<Rightarrow> nat list \<times> nat list \<times> int" where
  "demo_classify p s g t = ([p], [], 1)"

definition demo_count :: "nat result_stat \<Rightarrow> real \<Rightarrow> real" where
  "demo_count rs t = (case rs t of None \<Rightarrow> 0 | Some e \<Rightarrow> real_of_int (gt e))"

definition demo_env :: "(nat, unit, unit, unit, nat) collaborators" where
  "demo_env =
     \<lparr>load_yaml = (\<lambda>opt. demo_hypes),
      build_dataset = (\<lambda>hyp. ()),
      data_loader = (\<lambda>ds. demo_frames),
      create_model = (\<lambda>hyp. ()),
      load_saved_model = (\<lambda>path model epoch. (case epoch of None \<Rightarrow> ''30'' | Some e \<Rightarrow> e, model)),
      inference_late_fusion = (\<lambda>b model ds. demo_pipeline b),
      inference_early_fusion = (\<lambda>b model ds. demo_pipeline b),
      inference_intermediate_fusion = (\<lambda>b model ds. demo_pipeline b),
      inference_no_fusion = (\<lambda>b model ds. demo_pipeline b),
      inference_intermediate_fusion_withcomm =
        (\<lambda>b model ds. case demo_pipeline b of
                         (p, s, g) \<Rightarrow> (p, s, g, if origin_lidar b = 40 then 1 else 1/4)),
      caluclate_tp_fp = record_tp_fp demo_classify,
      eval_final_results =
        (\<lambda>rs path. (demo_count rs (3/10), demo_count rs (1/2), demo_count rs (7/10)))\<rparr>"

definition demo_opt :: "string \<Rightarrow> options" where
  "demo_opt fm = \<lparr>model_dir = ''logs/m'', fusion_method = fm, save_vis_n = 1, save_npy = True,
                   eval_epoch = None, comm_thre = None\<rparr>"

text \<open>The same run on a test directory whose path contains \<open>test.json\<close>.\<close>

definition demo_env_test :: "(nat, unit, unit, unit, nat) collaborators" where
  "demo_env_test = demo_env\<lparr>load_yaml := (\<lambda>opt. demo_hypes\<lparr>test_dir := ''dataset/test.json''\<rparr>)\<rparr>"


section \<open>Properties of \<open>result2dict\<close>\<close>

lemma take_rows_both:
  "8 \<le> length b \<Longrightarrow>
   take_rows b perm_label = Inr (map (\<lambda>i. b ! i) perm_label) \<and>
   take_rows (map (\<lambda>i. b ! i) perm_label) perm_pred = Inr (reorder b)"
  by (auto simp add: take_rows_def perm_label_def perm_pred_def reorder_def upt_rec)

lemma convert_box_Some:
  "8 \<le> length b \<Longrightarrow> i < length score \<Longrightarrow>
   convert_box (Some score) i b = Inr (reorder b, score ! i)"
  using take_rows_both [of b] by (simp add: convert_box_def score_at_def)

lemma convert_loop_None:
  "convert_loop None i bs (B, S, L) =
     Inr (B @ bs, S @ replicate (length bs) 1, L @ replicate (length bs) 2)"
proof (induction bs arbitrary: i B S L)
  case Nil
  show ?case by simp
next
  case (Cons b bs)
  show ?case
    by (simp add: convert_box_def Cons.IH replicate_app_Cons_same)
qed

lemma convert_loop_Some:
  "list_all (\<lambda>b. 8 \<le> length b) bs \<Longrightarrow> i + length bs \<le> length score \<Longrightarrow>
   convert_loop (Some score) i bs (B, S, L) =
     Inr (B @ map reorder bs, S @ take (length bs) (drop i score),
          L @ replicate (length bs) 2)"
proof (induction bs arbitrary: i B S L)
  case Nil
  show ?case by simp
next
  case (Cons b bs)
  have i: "i < length score" using Cons.prems by simp
  have d: "drop i score = score ! i # drop (Suc i) score"
    using i by (simp add: Cons_nth_drop_Suc)
  show ?case
    using Cons.prems i
    by (simp add: convert_box_Some Cons.IH d replicate_app_Cons_same)
qed

lemma perms_facts:
  "perm_pred \<noteq> perm_label"
  "distinct perm_pred" "set perm_pred = {0..<8}"
  "distinct perm_label" "set perm_label = {0..<8}"
  "map (\<lambda>j. perm_label ! (perm_pred ! j)) [0..<8] = [3, 7, 4, 0, 2, 6, 5, 1]"
  by (auto simp add: perm_pred_def perm_label_def upt_rec)

text \<open>
  Claim C1, as the code has it. The reordering in \<open>result2dict\<close> is a fixed permutation of
  the corner rows, with no arithmetic on coordinates, and the function holds two
  different permutations of the indices 0 to 7, \<open>perm_pred\<close> and \<open>perm_label\<close>. A box
  of a scored (predicted) input is not reordered by one of them: it is indexed by
  \<open>perm_label\<close> and the result by \<open>perm_pred\<close>, so that output corner \<open>j\<close> is input corner
  \<open>[3, 7, 4, 0, 2, 6, 5, 1][j]\<close>. This holds for every well-shaped input with at least 8
  rows per box and a score for every box; the scores are passed through and every label
  is 2. The boxes of an input passed without scores are not reordered.
\<close>

theorem result2dict_scored_reorders_by_both:
  assumes "well_shaped t" and "shape t = (n, r, c)" and "8 \<le> r" and "n \<le> length score"
  shows "(\<exists>out. result2dict t (Some score) = Inr out \<and>
            boxes (boxes_3d out) = map reorder (boxes t) \<and>
            scores_3d out = take n score \<and> labels_3d out = replicate n 2) \<and>
         (\<exists>out. result2dict t None = Inr out \<and> boxes (boxes_3d out) = boxes t) \<and>
         (\<forall>b. reorder b = map (\<lambda>j. b ! j) [3, 7, 4, 0, 2, 6, 5, 1]) \<and>
         perm_pred \<noteq> perm_label \<and>
         distinct perm_pred \<and> set perm_pred = {0..<8} \<and>
         distinct perm_label \<and> set perm_label = {0..<8}"
proof -
  have len: "length (boxes t) = n" and rows: "list_all (\<lambda>b. 8 \<le> length b) (boxes t)"
    using assms(1,2,3) by (auto simp add: well_shaped_def list_all_iff)
  have loop: "convert_loop (Some score) 0 (boxes t) ([], [], []) =
      Inr (map reorder (boxes t), take n score, replicate n 2)"
    using convert_loop_Some [OF rows, of 0 score "[]" "[]" "[]"] assms(4) len by simp
  have r: "\<forall>b::'b list. reorder b = map (\<lambda>j. b ! j) [3, 7, 4, 0, 2, 6, 5, 1]"
    by (simp add: reorder_def perm_pred_def perm_label_def upt_rec)
  have u: "\<exists>out. result2dict t None = Inr out \<and> boxes (boxes_3d out) = boxes t"
    by (auto simp add: result2dict_def convert_loop_None)
  have sc: "\<exists>out. result2dict t (Some score) = Inr out \<and>
            boxes (boxes_3d out) = map reorder (boxes t) \<and>
            scores_3d out = take n score \<and> labels_3d out = replicate n 2"
    using loop len by (auto simp add: result2dict_def)
  show ?thesis
    using sc u r perms_facts(1-5) by blast
qed


theorem result2dict_scored_reorders_by_both_witness:
  "well_shaped \<lparr>shape = (1, 8, 3), boxes = [box0]\<rparr> \<and>
   (\<exists>out. result2dict \<lparr>shape = (1, 8, 3), boxes = [box0]\<rparr> (Some [9/10]) = Inr out \<and>
          boxes (boxes_3d out) =
            [[[3, 0, 0], [7, 0, 0], [4, 0, 0], [0, 0, 0],
              [2, 0, 0], [6, 0, 0], [5, 0, 0], [1, 0, 0]]] \<and>
          scores_3d out = [9/10] \<and> labels_3d out = [2]) \<and>
   (\<exists>out. result2dict \<lparr>shape = (1, 8, 3), boxes = [box0]\<rparr> None = Inr out \<and>
          boxes (boxes_3d out) = [box0])"
proof -
  have w: "well_shaped \<lparr>shape = (1, 8, 3), boxes = [box0]\<rparr>"
    by (simp add: well_shaped_def box0_def)
  have b: "reorder box0 =
      [[3, 0, 0], [7, 0, 0], [4, 0, 0], [0, 0, 0], [2, 0, 0], [6, 0, 0], [5, 0, 0], [1, 0, 0]]"
    by (simp add: reorder_def perm_pred_def perm_label_def box0_def upt_rec)
  show ?thesis
    using w b
      result2dict_scored_reorders_by_both
        [of "\<lparr>shape = (1, 8, 3), boxes = [box0]\<rparr>" 1 8 3 "[9/10]"]
    by auto
qed

text \<open>
  Claim C1 as stated fails: the claim has each box reordered by exactly one of the two
  permutations. For a predicted box with eight distinct corners the output of
  \<open>result2dict\<close> is neither the box indexed by \<open>perm_pred\<close> nor the box indexed by
  \<open>perm_label\<close>; and a box passed without scores (the label side) comes out as it went
  in, which is not the box indexed by \<open>perm_label\<close>.
\<close>

theorem result2dict_single_permutation_counterexample:
  "result2dict \<lparr>shape = (1, 8, 3), boxes = [box0]\<rparr> (Some [9/10]) =
     Inr \<lparr>boxes_3d = \<lparr>shape = (1, 8, 3),
            boxes = [[[3, 0, 0], [7, 0, 0], [4, 0, 0], [0, 0, 0],
                      [2, 0, 0], [6, 0, 0], [5, 0, 0], [1, 0, 0]]]\<rparr>,
          scores_3d = [9/10], labels_3d = [2]\<rparr> \<and>
   take_rows box0 perm_pred \<noteq>
     Inr [[3, 0, 0], [7, 0, 0], [4, 0, 0], [0, 0, 0], [2, 0, 0], [6, 0, 0], [5, 0, 0], [1, 0, 0]] \<and>
   take_rows box0 perm_label \<noteq>
     Inr [[3, 0, 0], [7, 0, 0], [4, 0, 0], [0, 0, 0], [2, 0, 0], [6, 0, 0], [5, 0, 0], [1, 0, 0]] \<and>
   result2dict \<lparr>shape = (1, 8, 3), boxes = [box0]\<rparr> None =
     Inr \<lparr>boxes_3d = \<lparr>shape = (1, 8, 3), boxes = [box0]\<rparr>,
          scores_3d = [1], labels_3d = [2]\<rparr> \<and>
   take_rows box0 perm_label \<noteq> Inr box0"
  by (simp add: result2dict_def convert_box_def take_rows_def score_at_def
      perm_pred_def perm_label_def box0_def)

text \<open>
  Claim C10. Called with \<open>score_tensor = None\<close> on a well-shaped tensor of \<open>n\<close> boxes,
  \<open>result2dict\<close> returns the boxes in their input order with their corners in input
  order (for \<open>n > 0\<close> the output array is the input array), \<open>n\<close> scores \<open>1.0\<close> and \<open>n\<close>
  labels 2. For an empty tensor, with or without scores, it returns a box array of shape
  \<open>(0, 8, 3)\<close> and score and label arrays of length zero.
\<close>

theorem result2dict_unscored:
  assumes "well_shaped t" and "shape t = (n, r, c)"
  shows "result2dict t None =
           Inr \<lparr>boxes_3d = (if n = 0 then \<lparr>shape = (0, 8, 3), boxes = []\<rparr> else t),
                scores_3d = replicate n 1, labels_3d = replicate n 2\<rparr> \<and>
         (n = 0 \<longrightarrow> result2dict t score_tensor =
           Inr \<lparr>boxes_3d = \<lparr>shape = (0, 8, 3), boxes = []\<rparr>,
                scores_3d = [], labels_3d = []\<rparr>)"
proof -
  have len: "length (boxes t) = n"
    using assms by (simp add: well_shaped_def)
  have t: "t = \<lparr>shape = (n, r, c), boxes = boxes t\<rparr>"
    using assms(2) by (cases t) simp
  have a: "result2dict t None =
           Inr \<lparr>boxes_3d = (if n = 0 then \<lparr>shape = (0, 8, 3), boxes = []\<rparr> else t),
                scores_3d = replicate n 1, labels_3d = replicate n 2\<rparr>"
    using len t assms(2) by (auto simp add: result2dict_def convert_loop_None)
  have b: "n = 0 \<Longrightarrow> result2dict t score_tensor =
           Inr \<lparr>boxes_3d = \<lparr>shape = (0, 8, 3), boxes = []\<rparr>,
                scores_3d = [], labels_3d = []\<rparr>"
    using len by (simp add: result2dict_def)
  show ?thesis using a b by blast
qed


theorem result2dict_unscored_witness:
  "result2dict \<lparr>shape = (2, 8, 3), boxes = [box0, rev box0]\<rparr> None =
     Inr \<lparr>boxes_3d = \<lparr>shape = (2, 8, 3), boxes = [box0, rev box0]\<rparr>,
          scores_3d = [1, 1], labels_3d = [2, 2]\<rparr> \<and>
   result2dict \<lparr>shape = (0, 5, 2), boxes = ([] :: nat box list)\<rparr> (Some [1/2]) =
     Inr \<lparr>boxes_3d = \<lparr>shape = (0, 8, 3), boxes = []\<rparr>, scores_3d = [], labels_3d = []\<rparr>"
proof -
  have w2: "well_shaped \<lparr>shape = (2, 8, 3), boxes = [box0, rev box0]\<rparr>"
    by (simp add: well_shaped_def box0_def)
  have w0: "well_shaped \<lparr>shape = (0, 5, 2), boxes = ([] :: nat box list)\<rparr>"
    by (simp add: well_shaped_def)
  have r2: "replicate 2 (1::real) = [1, 1]" "replicate 2 (2::int) = [2, 2]"
    by (simp_all add: numeral_2_eq_2)
  show ?thesis
    using result2dict_unscored
            [of "\<lparr>shape = (2, 8, 3), boxes = [box0, rev box0]\<rparr>" 2 8 3 None, OF w2]
          result2dict_unscored
            [of "\<lparr>shape = (0, 5, 2), boxes = ([] :: nat box list)\<rparr>" 0 5 2 "Some [1/2]", OF w0]
          r2
    by simp
qed

section \<open>Properties of \<open>main\<close>\<close>

subsection \<open>The loop in terms of the pipeline results\<close>

lemma run_fusion_eq:
  "run_fusion env fm model ds b st =
     (case fusion_result env fm model ds b of
        Inl e \<Rightarrow> Inl e
      | Inr (out, cs) \<Rightarrow> Inr (out, st\<lparr>total_comm_rates := total_comm_rates st @ cs\<rparr>))"
  by (simp add: run_fusion_def fusion_result_def split: prod.splits)



lemma supported_cases:
  assumes "fm \<in> set supported_fusion_methods"
  obtains "fm = ''late''" | "fm = ''early''" | "fm = ''intermediate''"
    | "fm = ''intermediate_with_comm''" | "fm = ''no''"
  using assms unfolding supported_fusion_methods_def by auto

lemma fusion_result_modes:
  "fusion_result env ''late'' model ds b = Inr (inference_late_fusion env b model ds, [])"
  "fusion_result env ''early'' model ds b = Inr (inference_early_fusion env b model ds, [])"
  "fusion_result env ''intermediate'' model ds b =
     Inr (inference_intermediate_fusion env b model ds, [])"
  "fusion_result env ''no'' model ds b = Inr (inference_no_fusion env b model ds, [])"
  "fusion_result env ''intermediate_with_comm'' model ds b =
     (case inference_intermediate_fusion_withcomm env b model ds of
        (p, s, g, c) \<Rightarrow> Inr ((p, s, g), [c]))"
  by (simp_all add: fusion_result_def run_fusion_def split: prod.splits)

lemma fusion_result_supported:
  assumes "fm \<in> set supported_fusion_methods"
  shows "\<exists>res. fusion_result env fm model ds b = Inr res"
  using assms
proof (cases rule: supported_cases)
  case 4
  then show ?thesis
    by (cases "inference_intermediate_fusion_withcomm env b model ds")
       (simp add: fusion_result_modes)
qed (simp_all only: fusion_result_modes, blast+)

lemma fusion_result_unsupported:
  "fm \<notin> set supported_fusion_methods \<Longrightarrow> fusion_result env fm model ds b = Inl NotImplementedError"
  by (simp add: supported_fusion_methods_def fusion_result_def run_fusion_def)

lemma process_frame_eq:
  "process_frame env opt hyp ti lh model ds i b st =
     (case fusion_result env (fusion_method opt) model ds b of
        Inl e \<Rightarrow> Inl e
      | Inr res \<Rightarrow>
          Inr \<lparr>result_stat = stat_after env ti res (result_stat st),
               total_comm_rates = total_comm_rates st @ snd res,
               artifacts = artifacts st @ frame_artifacts opt hyp lh i b res\<rparr>)"
proof (cases "fusion_result env (fusion_method opt) model ds b")
  case (Inl e)
  then show ?thesis by (simp add: process_frame_def run_fusion_eq)
next
  case (Inr res)
  obtain p s g cs where res: "res = ((p, s, g), cs)" by (cases res) auto
  show ?thesis
  proof (cases p)
    case None
    then show ?thesis
      using Inr res
      by (cases st) (simp add: process_frame_def run_fusion_eq stat_after_def frame_artifacts_def)
  next
    case (Some q)
    then show ?thesis
      using Inr res
      by (cases st)
         (simp add: process_frame_def run_fusion_eq stat_after_def frame_artifacts_def Let_def)
  qed
qed


lemma inference_loop_eq:
  "inference_loop env opt hyp ti lh model ds i bs st =
     (case frame_results env (fusion_method opt) model ds bs of
        Inl e \<Rightarrow> Inl e
      | Inr rs \<Rightarrow>
          Inr \<lparr>result_stat = foldl (\<lambda>acc res. stat_after env ti res acc) (result_stat st) rs,
               total_comm_rates = total_comm_rates st @ concat (map snd rs),
               artifacts = artifacts st @ loop_artifacts opt hyp lh i (zip bs rs)\<rparr>)"
proof (induction bs arbitrary: i st)
  case Nil
  show ?case by (cases st) simp
next
  case (Cons b bs)
  show ?case
    by (simp add: process_frame_eq Cons.IH split: sum.splits)
qed

lemma frame_results_supported:
  assumes "fm \<in> set supported_fusion_methods"
  shows "\<exists>rs. frame_results env fm model ds bs = Inr rs \<and> length rs = length bs"
proof (induction bs)
  case Nil
  show ?case by simp
next
  case (Cons b bs)
  obtain r where "fusion_result env fm model ds b = Inr r"
    using fusion_result_supported [OF assms, of env model ds b] by blast
  then show ?case using Cons.IH by auto
qed

lemma frame_results_length:
  "frame_results env fm model ds bs = Inr rs \<Longrightarrow> length rs = length bs"
  by (induction bs arbitrary: rs) (auto split: sum.splits)

lemma main_eq:
  assumes "fusion_method opt \<in> set supported_fusion_methods"
    and "run_results env opt = Inr rs"
    and "fs = foldl (\<lambda>acc res. stat_after env (run_test_inference env opt) res acc)
                initial_result_stat rs"
    and "eval_final_results env fs (model_dir opt) = (a3, a5, a7)"
  shows "main env opt old =
     Inr \<lparr>final_stat = fs, ap_30 = a3, ap_50 = a5, ap_70 = a7,
          comm_rate = mean_comm_rate (concat (map snd rs)),
          saved = loop_artifacts opt (load_hypes env opt)
                    (str_contains ''OPV2V'' (test_dir (load_hypes env opt))) 0
                    (zip (run_frames env opt) rs),
          result_txt = old @ report_line opt
                         (fst (load_model env opt (load_hypes env opt))) a3 a5 a7
                         (mean_comm_rate (concat (map snd rs)))\<rparr>"
  using assms
  by (simp add: main_def inference_loop_eq run_results_def run_model_def run_dataset_def
      run_frames_def run_test_inference_def Let_def)

lemma main_unsupported:
  "fusion_method opt \<notin> set supported_fusion_methods \<Longrightarrow> main env opt old = Inl AssertionError"
  by (simp add: main_def)


lemma str_contains_iff: "str_contains p s \<longleftrightarrow> (\<exists>a b. s = a @ p @ b)"
proof (induction s)
  case Nil
  show ?case by auto
next
  case (Cons c cs)
  show ?case
  proof
    assume "str_contains p (c # cs)"
    then consider "take (length p) (c # cs) = p" | "str_contains p cs" by auto
    then show "\<exists>a b. c # cs = a @ p @ b"
    proof cases
      case 1
      then have "c # cs = [] @ p @ drop (length p) (c # cs)"
        by (metis append_Nil append_take_drop_id)
      then show ?thesis by blast
    next
      case 2
      then obtain a b where "cs = a @ p @ b" using Cons.IH by blast
      then have "c # cs = (c # a) @ p @ b" by simp
      then show ?thesis by blast
    qed
  next
    assume "\<exists>a b. c # cs = a @ p @ b"
    then obtain a b where ab: "c # cs = a @ p @ b" by blast
    show "str_contains p (c # cs)"
    proof (cases a)
      case Nil
      then have "take (length p) (c # cs) = p" using ab by simp
      then show ?thesis by simp
    next
      case (Cons x a')
      then have "cs = a' @ p @ b" using ab by simp
      then have "str_contains p cs" using Cons.IH by blast
      then show ?thesis by simp
    qed
  qed
qed

lemma stat_after_None: "stat_after env ti ((None, s, g), cs) rs = rs"
  by (simp add: stat_after_def)

lemma stat_after_test: "stat_after env True res rs = rs"
  by (cases res) (auto simp add: stat_after_def split: option.splits)

lemma foldl_stat_after_test:
  "foldl (\<lambda>acc res. stat_after env True res acc) rs0 rs = rs0"
  by (induction rs) (simp_all add: stat_after_test)

lemma main_supported:
  assumes "fusion_method opt \<in> set supported_fusion_methods"
  shows "\<exists>rs r. run_results env opt = Inr rs \<and>
    length rs = length (run_frames env opt) \<and>
    main env opt old = Inr r \<and>
    final_stat r = foldl (\<lambda>acc res. stat_after env (run_test_inference env opt) res acc)
                     initial_result_stat rs \<and>
    (ap_30 r, ap_50 r, ap_70 r) = eval_final_results env (final_stat r) (model_dir opt) \<and>
    comm_rate r = mean_comm_rate (concat (map snd rs)) \<and>
    saved r = loop_artifacts opt (load_hypes env opt)
                (str_contains ''OPV2V'' (test_dir (load_hypes env opt))) 0
                (zip (run_frames env opt) rs) \<and>
    result_txt r = old @ report_line opt
                     (fst (load_model env opt (load_hypes env opt)))
                     (ap_30 r) (ap_50 r) (ap_70 r) (comm_rate r)"
proof -
  obtain rs where rs: "run_results env opt = Inr rs"
      and len: "length rs = length (run_frames env opt)"
    using frame_results_supported [OF assms, of env "run_model env opt" "run_dataset env opt"
        "run_frames env opt"]
    by (auto simp add: run_results_def)
  define fs where "fs = foldl (\<lambda>acc res. stat_after env (run_test_inference env opt) res acc)
                initial_result_stat rs"
  obtain a3 a5 a7 where aps: "eval_final_results env fs (model_dir opt) = (a3, a5, a7)"
    by (cases "eval_final_results env fs (model_dir opt)") auto
  note m = main_eq [OF assms rs fs_def aps, of old]
  show ?thesis
    apply (rule exI [of _ rs])
    apply (rule exI)
    apply (intro conjI)
           apply (rule rs)
          apply (rule len)
         apply (rule m)
        apply (simp_all add: fs_def aps [unfolded fs_def, symmetric])
    done
qed

subsection \<open>Helper lemmas\<close>

lemma fusion_result_data_loader [simp]:
  "fusion_result (env\<lparr>data_loader := f\<rparr>) fm model ds b = fusion_result env fm model ds b"
  by (simp add: fusion_result_def run_fusion_def)

lemma frame_results_data_loader [simp]:
  "frame_results (env\<lparr>data_loader := f\<rparr>) fm model ds bs = frame_results env fm model ds bs"
  by (induction bs) (simp_all cong: sum.case_cong)

lemma accumulate_data_loader [simp]:
  "accumulate (env\<lparr>data_loader := f\<rparr>) p s g rs = accumulate env p s g rs"
  by (simp add: accumulate_def)

lemma stat_after_data_loader [simp]:
  "stat_after (env\<lparr>data_loader := f\<rparr>) ti res rs = stat_after env ti res rs"
  by (simp add: stat_after_def split: prod.splits option.splits)

lemma run_data_loader [simp]:
  "load_hypes (env\<lparr>data_loader := f\<rparr>) opt = load_hypes env opt"
  "load_model (env\<lparr>data_loader := f\<rparr>) opt hyp = load_model env opt hyp"
  "run_model (env\<lparr>data_loader := f\<rparr>) opt = run_model env opt"
  "run_dataset (env\<lparr>data_loader := f\<rparr>) opt = run_dataset env opt"
  "run_test_inference (env\<lparr>data_loader := f\<rparr>) opt = run_test_inference env opt"
  "run_frames (env\<lparr>data_loader := f\<rparr>) opt = f (run_dataset env opt)"
  by (simp_all add: load_hypes_def load_model_def run_model_def run_dataset_def
      run_test_inference_def run_frames_def Let_def
      cong: option.case_cong)

lemma frame_results_filter:
  "frame_results env fm model ds bs = Inr rs \<Longrightarrow>
   frame_results env fm model ds (filter (\<lambda>b. \<not> no_prediction env fm model ds b) bs) =
     Inr (filter (\<lambda>r. fst (fst r) \<noteq> None) rs)"
proof (induction bs arbitrary: rs)
  case Nil
  then show ?case by simp
next
  case (Cons b bs)
  from Cons.prems obtain r rs' where r: "fusion_result env fm model ds b = Inr r"
    and rs': "frame_results env fm model ds bs = Inr rs'" and rs: "rs = r # rs'"
    by (auto split: sum.splits)
  obtain p s g cs where res: "r = ((p, s, g), cs)" by (cases r) auto
  show ?case
    using r rs res Cons.IH [OF rs'] rs'
    by (cases p) (simp_all add: no_prediction_def)
qed

lemma foldl_stat_after_filter:
  "foldl (\<lambda>acc res. stat_after env ti res acc) a (filter (\<lambda>r. fst (fst r) \<noteq> None) rs) =
   foldl (\<lambda>acc res. stat_after env ti res acc) a rs"
proof (induction rs arbitrary: a)
  case Nil
  show ?case by simp
next
  case (Cons r rs)
  obtain p s g cs where res: "r = ((p, s, g), cs)" by (cases r) auto
  show ?case
    using Cons.IH res by (cases p) (simp_all add: stat_after_None)
qed

lemma fusion_result_comm:
  "fusion_result env fm model ds b = Inr res \<Longrightarrow>
   snd res = (if fm = ''intermediate_with_comm''
              then [case inference_intermediate_fusion_withcomm env b model ds of
                      (p, s, g, c) \<Rightarrow> c]
              else [])"
  by (auto simp add: fusion_result_def run_fusion_def split: if_splits prod.splits)

lemma frame_results_comm:
  "frame_results env fm model ds bs = Inr rs \<Longrightarrow>
   concat (map snd rs) =
     (if fm = ''intermediate_with_comm''
      then map (\<lambda>b. case inference_intermediate_fusion_withcomm env b model ds of
                      (p, s, g, c) \<Rightarrow> c) bs
      else [])"
proof (induction bs arbitrary: rs)
  case Nil
  then show ?case by simp
next
  case (Cons b bs)
  from Cons.prems obtain r rs' where r: "fusion_result env fm model ds b = Inr r"
    and rs': "frame_results env fm model ds bs = Inr rs'" and rs: "rs = r # rs'"
    by (auto split: sum.splits)
  show ?case
    using fusion_result_comm [OF r] Cons.IH [OF rs'] rs by simp
qed

lemma inference_loop_supported:
  assumes "fusion_method opt \<in> set supported_fusion_methods"
  shows "\<exists>st'. inference_loop env opt hyp ti lh model ds i bs st = Inr st'"
  using frame_results_supported [OF assms, of env model ds bs]
  by (auto simp add: inference_loop_eq)


lemma frame_results_reidentified:
  "\<forall>b \<in> set bs. \<forall>k. fusion_result env fm model ds (b\<lparr>sample_idx := k\<rparr>) =
                        fusion_result env fm model ds b \<Longrightarrow>
   length ids = length bs \<Longrightarrow>
   frame_results env fm model ds (map2 (\<lambda>b k. b\<lparr>sample_idx := k\<rparr>) bs ids) =
   frame_results env fm model ds bs"
proof (induction bs arbitrary: ids)
  case Nil
  then show ?case by simp
next
  case (Cons b bs)
  then obtain k ks where ids: "ids = k # ks" by (cases ids) auto
  show ?case
    using Cons.prems Cons.IH [of ks] ids by (simp split: sum.splits)
qed

lemma test_dir_load_hypes: "test_dir (load_hypes env opt) = test_dir (load_yaml env opt)"
  by (simp add: load_hypes_def Let_def split: option.splits)

lemma stat_after_accumulates:
  "stat_after env False res acc =
     (case res of
        ((Some p, s, g), cs) \<Rightarrow>
          caluclate_tp_fp env p s g
            (caluclate_tp_fp env p s g (caluclate_tp_fp env p s g acc (3/10)) (1/2)) (7/10)
      | ((None, s, g), cs) \<Rightarrow> acc)"
  by (simp add: stat_after_def accumulate_def split: prod.splits option.splits)

lemma initial_result_stat_dom: "dom (initial_result_stat :: 'e result_stat) = {3/10, 1/2, 7/10}"
  by (auto simp add: initial_result_stat_def)

lemma initial_result_stat_values:
  "(initial_result_stat :: 'e result_stat) (3/10) = Some \<lparr>tp = [], fp = [], gt = 0\<rparr>"
  "(initial_result_stat :: 'e result_stat) (1/2) = Some \<lparr>tp = [], fp = [], gt = 0\<rparr>"
  "(initial_result_stat :: 'e result_stat) (7/10) = Some \<lparr>tp = [], fp = [], gt = 0\<rparr>"
  by (simp_all add: initial_result_stat_def empty_stat_def)

lemma demo_late_supported: "fusion_method (demo_opt ''late'') \<in> set supported_fusion_methods"
  by (simp add: demo_opt_def supported_fusion_methods_def)

lemma demo_comm_supported:
  "fusion_method (demo_opt ''intermediate_with_comm'') \<in> set supported_fusion_methods"
  by (simp add: demo_opt_def supported_fusion_methods_def)

lemma demo_test_results:
  "run_results demo_env_test (demo_opt ''late'') =
     Inr [((Some 31, 9, 30), []), ((None, 9, 40), []), ((Some 51, 9, 50), [])]"
  by (simp add: run_results_def run_frames_def run_dataset_def fusion_result_modes
      demo_env_test_def demo_env_def demo_opt_def demo_frames_def demo_pipeline_def)

subsection \<open>Formatting and \<open>float32\<close> arithmetic\<close>

lemma dec_digits_chars: "set (dec_digits k) \<subseteq> set ''0123456789''"
proof (induction k rule: dec_digits.induct)
  case (1 n)
  have d: "\<And>j. j < 10 \<Longrightarrow> ''0123456789'' ! j \<in> set ''0123456789''"
    by (rule nth_mem) simp
  show ?case
  proof (cases "n < 10")
    case True
    then show ?thesis
      using d [of n] by (subst dec_digits.simps) simp
  next
    case False
    have "n mod 10 < 10" by simp
    then show ?thesis
      using False "1.IH" d [of "n mod 10"] by (subst dec_digits.simps) simp
  qed
qed

lemma dec_digits_nonempty: "dec_digits k \<noteq> []"
  by (subst dec_digits.simps) simp

lemma dec_digits_length: "0 < n \<Longrightarrow> k < 10 ^ n \<Longrightarrow> length (dec_digits k) \<le> n"
proof (induction k arbitrary: n rule: dec_digits.induct)
  case (1 k)
  show ?case
  proof (cases "k < 10")
    case True
    then show ?thesis
      using "1.prems" by (subst dec_digits.simps) simp
  next
    case False
    obtain n' where n': "n = Suc n'"
      using "1.prems"(1) by (cases n) auto
    have pos: "0 < n'"
    proof (rule ccontr)
      assume "\<not> 0 < n'"
      then have "n = 1" using n' by simp
      then show False using "1.prems"(2) False by simp
    qed
    have "k div 10 < 10 ^ n'"
      using "1.prems"(2) n' by (simp add: less_mult_imp_div_less mult.commute)
    then have "length (dec_digits (k div 10)) \<le> n'"
      using "1.IH" [OF False pos] by simp
    then show ?thesis
      using False n' by (subst dec_digits.simps) simp
  qed
qed

lemma zero_pad_chars: "set (zero_pad w s) \<subseteq> insert CHR ''0'' (set s)"
  by (auto simp add: zero_pad_def)

lemma zero_pad_length: "length s \<le> w \<Longrightarrow> length (zero_pad w s) = w"
  by (simp add: zero_pad_def)

lemma format_f_chars: "set (format_f n x) \<subseteq> set ''-.0123456789''"
proof -
  have a: "\<And>k. set (dec_digits k) \<subseteq> set ''-.0123456789''"
    using dec_digits_chars by fastforce
  have b: "\<And>k. set (zero_pad n (dec_digits k)) \<subseteq> set ''-.0123456789''"
    using zero_pad_chars [of n] dec_digits_chars by fastforce
  show ?thesis
    using a b by (auto simp add: format_f_def Let_def)
qed

lemma format_f_no_newline: "CHR 0x0A \<notin> set (format_f n x)"
  using format_f_chars [of n x] by auto

lemma format_f_shape:
  assumes "0 < n"
  shows "\<exists>ip fr. format_f n x = (if x < 0 then ''-'' else []) @ ip @ ''.'' @ fr \<and>
           ip \<noteq> [] \<and> length fr = n \<and> set (ip @ fr) \<subseteq> set ''0123456789''"
proof -
  define m where "m = nat (round_half_even (\<bar>x\<bar> * 10 ^ n))"
  have lt: "m mod 10 ^ n < 10 ^ n" by simp
  have len: "length (zero_pad n (dec_digits (m mod 10 ^ n))) = n"
    using dec_digits_length [OF assms lt] by (rule zero_pad_length)
  have ch: "set (zero_pad n (dec_digits (m mod 10 ^ n))) \<subseteq> set ''0123456789''"
    using zero_pad_chars [of n "dec_digits (m mod 10 ^ n)"] dec_digits_chars [of "m mod 10 ^ n"]
    by auto
  have f: "format_f n x = (if x < 0 then ''-'' else []) @ dec_digits (m div 10 ^ n) @ ''.'' @
      zero_pad n (dec_digits (m mod 10 ^ n))"
    using assms by (simp add: format_f_def Let_def m_def)
  show ?thesis
    using f len ch dec_digits_nonempty [of "m div 10 ^ n"] dec_digits_chars [of "m div 10 ^ n"]
    by (intro exI [of _ "dec_digits (m div 10 ^ n)"]
          exI [of _ "zero_pad n (dec_digits (m mod 10 ^ n))"]) simp
qed



lemma f32_round_pos:
  assumes "0 < x" and "f32_exponent x = e" and "pow2 (e - 23) = q"
    and "round_half_even (x / q) = m"
  shows "f32_round x = of_int m * q"
  using assms by (simp add: f32_round_def Let_def)

subsection \<open>The pipeline results written out\<close>

lemma fusion_result_pipeline:
  assumes "fm \<in> set supported_fusion_methods"
  shows "fusion_result env fm model ds b =
           Inr (pipeline_output env fm b model ds, comm_samples env fm model ds [b])"
  using assms
proof (cases rule: supported_cases)
  case 4
  then show ?thesis
    by (cases "inference_intermediate_fusion_withcomm env b model ds")
       (simp add: fusion_result_modes pipeline_output_def comm_samples_def)
qed (simp_all add: fusion_result_modes pipeline_output_def comm_samples_def)

lemma frame_results_pipeline:
  assumes "fm \<in> set supported_fusion_methods"
  shows "frame_results env fm model ds bs =
           Inr (map (\<lambda>b. (pipeline_output env fm b model ds,
                           comm_samples env fm model ds [b])) bs)"
  by (induction bs) (simp_all add: fusion_result_pipeline [OF assms])

lemma comm_samples_concat:
  "concat (map (\<lambda>b. comm_samples env fm model ds [b]) bs) = comm_samples env fm model ds bs"
  by (induction bs) (simp_all add: comm_samples_def)

lemma main_comm_rate:
  assumes "fusion_method opt \<in> set supported_fusion_methods"
    and "main env opt old = Inr r"
  shows "comm_rate r =
           mean_comm_rate (comm_samples env (fusion_method opt) (run_model env opt)
                             (run_dataset env opt) (run_frames env opt))"
proof -
  obtain rs r' where rs: "run_results env opt = Inr rs" and m: "main env opt old = Inr r'"
    and c: "comm_rate r' = mean_comm_rate (concat (map snd rs))"
    using main_supported [OF assms(1), of env old] by blast
  have "rs = map (\<lambda>b. (pipeline_output env (fusion_method opt) b (run_model env opt)
                         (run_dataset env opt),
                       comm_samples env (fusion_method opt) (run_model env opt)
                         (run_dataset env opt) [b])) (run_frames env opt)"
    using rs frame_results_pipeline [OF assms(1), of env "run_model env opt"
        "run_dataset env opt" "run_frames env opt"]
    by (simp add: run_results_def)
  then have "concat (map snd rs) =
      comm_samples env (fusion_method opt) (run_model env opt) (run_dataset env opt)
        (run_frames env opt)"
    by (simp add: comp_def comm_samples_concat)
  then show ?thesis
    using c m assms(2) by simp
qed

lemma gt_range_load_hypes: "gt_range (load_hypes env opt) = gt_range (load_yaml env opt)"
  by (simp add: load_hypes_def Let_def split: option.splits)

lemma loop_artifacts_explicit:
  "loop_artifacts opt hyp lh i (zip bs (map (\<lambda>b. (out b, cs b)) bs)) =
   concat (map (\<lambda>(j, b).
      case out b of
        (None, s, g) \<Rightarrow> []
      | (Some p, s, g) \<Rightarrow>
          (if save_npy opt
           then [SavedPredictionGt p s g (origin_lidar b) (sample_idx b)
                   (os_path_join (model_dir opt) ''npy'')]
           else []) @
          (if save_vis_n opt \<noteq> 0 \<and> int j < save_vis_n opt
           then [Visualized p g (origin_lidar b) (gt_range hyp)
                   (os_path_join (model_dir opt)
                      (''vis_3d/3d_'' @ format_05d (sample_idx b) @ ''.png''))
                   ''3d'' lh,
                 Visualized p g (origin_lidar b) (gt_range hyp)
                   (os_path_join (model_dir opt)
                      (''vis_bev/bev_'' @ format_05d (sample_idx b) @ ''.png''))
                   ''bev'' lh]
           else []))
     (zip [i..<i + length bs] bs))"
proof (induction bs arbitrary: i)
  case Nil
  show ?case by simp
next
  case (Cons b bs)
  have u: "[i..<i + length (b # bs)] = i # [Suc i..<Suc i + length bs]"
    by (simp add: upt_conv_Cons del: upt_Suc)
  show ?case
    unfolding u using Cons.IH [of "Suc i"]
    by (simp add: frame_artifacts_def visualizations_def split: prod.splits option.splits)
qed

subsection \<open>The recorded statistics\<close>

lemma fusion_result_caluclate [simp]:
  "fusion_result (env\<lparr>caluclate_tp_fp := f\<rparr>) fm model ds b = fusion_result env fm model ds b"
  by (simp add: fusion_result_def run_fusion_def)

lemma frame_results_caluclate [simp]:
  "frame_results (env\<lparr>caluclate_tp_fp := f\<rparr>) fm model ds bs = frame_results env fm model ds bs"
  by (induction bs) (simp_all cong: sum.case_cong)

lemma run_caluclate [simp]:
  "load_hypes (env\<lparr>caluclate_tp_fp := f\<rparr>) opt = load_hypes env opt"
  "load_model (env\<lparr>caluclate_tp_fp := f\<rparr>) opt hyp = load_model env opt hyp"
  "run_model (env\<lparr>caluclate_tp_fp := f\<rparr>) opt = run_model env opt"
  "run_dataset (env\<lparr>caluclate_tp_fp := f\<rparr>) opt = run_dataset env opt"
  "run_test_inference (env\<lparr>caluclate_tp_fp := f\<rparr>) opt = run_test_inference env opt"
  "run_frames (env\<lparr>caluclate_tp_fp := f\<rparr>) opt = run_frames env opt"
  "run_results (env\<lparr>caluclate_tp_fp := f\<rparr>) opt = run_results env opt"
  by (simp_all add: load_hypes_def load_model_def run_model_def run_dataset_def
      run_test_inference_def run_frames_def run_results_def Let_def
      cong: option.case_cong)

lemma accumulate_record:
  assumes "rs (3/10) = Some e3" and "rs (1/2) = Some e5" and "rs (7/10) = Some e7"
  shows "accumulate (env\<lparr>caluclate_tp_fp := record_tp_fp classify\<rparr>) p s g rs =
    rs(3/10 \<mapsto> (case classify p s g (3/10) of
                    (tps, fps, n) \<Rightarrow> \<lparr>tp = tp e3 @ tps, fp = fp e3 @ fps, gt = gt e3 + n\<rparr>),
       1/2 \<mapsto> (case classify p s g (1/2) of
                    (tps, fps, n) \<Rightarrow> \<lparr>tp = tp e5 @ tps, fp = fp e5 @ fps, gt = gt e5 + n\<rparr>),
       7/10 \<mapsto> (case classify p s g (7/10) of
                    (tps, fps, n) \<Rightarrow> \<lparr>tp = tp e7 @ tps, fp = fp e7 @ fps, gt = gt e7 + n\<rparr>))"
  using assms
  by (simp add: accumulate_def record_tp_fp_def split: prod.splits)

lemma foldl_record_per_threshold:
  fixes classify :: "'t \<Rightarrow> 't \<Rightarrow> 't \<Rightarrow> real \<Rightarrow> 'e list \<times> 'e list \<times> int"
  defines "upd \<equiv> \<lambda>t e (res :: ('t option \<times> 't \<times> 't) \<times> real list).
      case res of
        ((Some p, s, g), cs) \<Rightarrow>
          (case classify p s g t of
             (tps, fps, n) \<Rightarrow> \<lparr>tp = tp e @ tps, fp = fp e @ fps, gt = gt e + n\<rparr>)
      | ((None, s, g), cs) \<Rightarrow> e"
  assumes "acc (3/10) = Some e3" and "acc (1/2) = Some e5" and "acc (7/10) = Some e7"
    and "dom acc = {3/10, 1/2, 7/10}"
  shows "foldl (\<lambda>a res. stat_after (env\<lparr>caluclate_tp_fp := record_tp_fp classify\<rparr>) False res a)
           acc rs =
         [3/10 \<mapsto> foldl (upd (3/10)) e3 rs, 1/2 \<mapsto> foldl (upd (1/2)) e5 rs,
          7/10 \<mapsto> foldl (upd (7/10)) e7 rs]"
  using assms(2-5)
proof (induction rs arbitrary: acc e3 e5 e7)
  case Nil
  show ?case
  proof (rule ext)
    fix t
    show "foldl (\<lambda>a res. stat_after (env\<lparr>caluclate_tp_fp := record_tp_fp classify\<rparr>) False res a)
            acc [] t =
          [3/10 \<mapsto> foldl (upd (3/10)) e3 [], 1/2 \<mapsto> foldl (upd (1/2)) e5 [],
           7/10 \<mapsto> foldl (upd (7/10)) e7 []] t"
    proof -
      consider "t = 3/10" | "t = 1/2" | "t = 7/10" | "t \<notin> {3/10, 1/2, 7/10}" by blast
      then show ?thesis
      proof cases
        case 1
        show ?thesis unfolding 1 using Nil(1) by simp
      next
        case 2
        show ?thesis unfolding 2 using Nil(2) by simp
      next
        case 3
        show ?thesis unfolding 3 using Nil(3) by simp
      next
        case 4
        then have "acc t = None" using Nil(4) by (metis domIff)
        then show ?thesis using 4 by simp
      qed
    qed
  qed
next
  case (Cons r rs)
  obtain p s g cs where r: "r = ((p, s, g), cs)" by (cases r) auto
  show ?case
  proof (cases p)
    case None
    then show ?thesis
      using r Cons.IH [OF Cons.prems] by (simp add: stat_after_None upd_def)
  next
    case (Some q)
    let ?acc' = "accumulate (env\<lparr>caluclate_tp_fp := record_tp_fp classify\<rparr>) q s g acc"
    have a: "?acc' = acc(3/10 \<mapsto> upd (3/10) e3 r, 1/2 \<mapsto> upd (1/2) e5 r,
                         7/10 \<mapsto> upd (7/10) e7 r)"
      using accumulate_record [OF Cons.prems(1-3), where env = env and classify = classify
          and p = q and s = s and g = g] r Some
      by (simp add: upd_def)
    have d: "dom ?acc' = {3/10, 1/2, 7/10}"
      unfolding a by (simp only: dom_fun_upd option.simps if_False Cons.prems(4)) blast
    have v3: "?acc' (3/10) = Some (upd (3/10) e3 r)"
      and v5: "?acc' (1/2) = Some (upd (1/2) e5 r)"
      and v7: "?acc' (7/10) = Some (upd (7/10) e7 r)"
      unfolding a by simp_all
    have "foldl (\<lambda>a res. stat_after (env\<lparr>caluclate_tp_fp := record_tp_fp classify\<rparr>) False res a)
            ?acc' rs =
          [3/10 \<mapsto> foldl (upd (3/10)) (upd (3/10) e3 r) rs,
           1/2 \<mapsto> foldl (upd (1/2)) (upd (1/2) e5 r) rs,
           7/10 \<mapsto> foldl (upd (7/10)) (upd (7/10) e7 r) rs]"
      by (rule Cons.IH [OF v3 v5 v7 d])
    moreover have "stat_after (env\<lparr>caluclate_tp_fp := record_tp_fp classify\<rparr>) False r acc =
        ?acc'"
      using r Some by (simp add: stat_after_def)
    ultimately show ?thesis
      by (simp only: foldl_Cons)
  qed
qed

lemma foldl_map_fun: "foldl g a (map f xs) = foldl (\<lambda>a x. g a (f x)) a xs"
  by (induction xs arbitrary: a) simp_all

subsection \<open>Values of the concrete run\<close>

lemma format_f_eval:
  assumes "0 \<le> x" and "0 < n" and "round_half_even (x * 10 ^ n) = int m"
  shows "format_f n x = dec_digits (m div 10 ^ n) @ ''.'' @ zero_pad n (dec_digits (m mod 10 ^ n))"
  using assms by (simp add: format_f_def Let_def)

lemma format_f_values:
  "format_f 4 2 = ''2.0000''"
  "format_f 4 0 = ''0.0000''"
  "format_f 6 0 = ''0.000000''"
  "format_f 4 (1/4) = ''0.2500''"
  "format_f 6 (1/2) = ''0.500000''"
proof -
  have z4: "zero_pad 4 ''0'' = ''0000''" and z6: "zero_pad 6 ''0'' = ''000000''"
    and z25: "zero_pad 4 ''2500'' = ''2500''" and z5: "zero_pad 6 ''500000'' = ''500000''"
    by (simp_all add: zero_pad_def numeral_eq_Suc)
  show "format_f 4 2 = ''2.0000''"
    using format_f_eval [of 2 4 20000]
    by (simp add: round_half_even_def Let_def dec_digits.simps z4)
  show "format_f 4 0 = ''0.0000''"
    using format_f_eval [of 0 4 0]
    by (simp add: round_half_even_def Let_def dec_digits.simps z4)
  show "format_f 6 0 = ''0.000000''"
    using format_f_eval [of 0 6 0]
    by (simp add: round_half_even_def Let_def dec_digits.simps z6)
  show "format_f 4 (1/4) = ''0.2500''"
    using format_f_eval [of "1/4" 4 2500]
    by (simp add: round_half_even_def Let_def dec_digits.simps z25)
  show "format_f 6 (1/2) = ''0.500000''"
    using format_f_eval [of "1/2" 6 500000]
    by (simp add: round_half_even_def Let_def dec_digits.simps z5)
qed

lemma f32_round_values:
  "f32_round 0 = 0"
  "f32_round (1/4) = 1/4"
  "f32_round (1/2) = 1/2"
  "f32_round 1 = 1"
  "f32_round (5/4) = 5/4"
  "f32_round (3/2) = 3/2"
  "f32_round 3 = 3"
  "f32_round (1/3) = 11184811 / 33554432"
proof -
  show "f32_round 0 = 0" by (simp add: f32_round_def)
  have "f32_round (1/4) = of_int 8388608 * (1 / 33554432)"
    by (rule f32_round_pos [where e = "- 2"])
       (simp_all add: f32_exponent_def pow2_def round_half_even_def Let_def)
  then show "f32_round (1/4) = 1/4" by simp
  have "f32_round (1/2) = of_int 8388608 * (1 / 16777216)"
    by (rule f32_round_pos [where e = "- 1"])
       (simp_all add: f32_exponent_def pow2_def round_half_even_def Let_def)
  then show "f32_round (1/2) = 1/2" by simp
  have "f32_round 1 = of_int 8388608 * (1 / 8388608)"
    by (rule f32_round_pos [where e = 0])
       (simp_all add: f32_exponent_def pow2_def round_half_even_def Let_def)
  then show "f32_round 1 = 1" by simp
  have "f32_round (5/4) = of_int 10485760 * (1 / 8388608)"
    by (rule f32_round_pos [where e = 0])
       (simp_all add: f32_exponent_def pow2_def round_half_even_def Let_def)
  then show "f32_round (5/4) = 5/4" by simp
  have "f32_round (3/2) = of_int 12582912 * (1 / 8388608)"
    by (rule f32_round_pos [where e = 0])
       (simp_all add: f32_exponent_def pow2_def round_half_even_def Let_def)
  then show "f32_round (3/2) = 3/2" by simp
  have "f32_round 3 = of_int 12582912 * (1 / 4194304)"
    by (rule f32_round_pos [where e = 1])
       (simp_all add: f32_exponent_def pow2_def round_half_even_def Let_def)
  then show "f32_round 3 = 3" by simp
  have "f32_round (1/3) = of_int 11184811 * (1 / 33554432)"
    by (rule f32_round_pos [where e = "- 2"])
       (simp_all add: f32_exponent_def pow2_def round_half_even_def Let_def)
  then show "f32_round (1/3) = 11184811 / 33554432" by simp
qed

lemma mean_comm_rate_values:
  "mean_comm_rate [] = 0"
  "mean_comm_rate [1/4, 1, 1/4] = 1/2"
  "mean_comm_rate [1, 0, 0] = 11184811 / 33554432"
  by (simp_all add: mean_comm_rate_def f32_div_def f32_add_def f32_round_values)

lemma demo_results_late:
  assumes "fusion_method opt = ''late''"
  shows "run_results demo_env opt =
     Inr [((Some 31, 9, 30), []), ((None, 9, 40), []), ((Some 51, 9, 50), [])]"
  using assms
  by (simp add: run_results_def run_frames_def run_dataset_def fusion_result_modes
      demo_env_def demo_frames_def demo_pipeline_def)


lemma demo_stat_values:
  fixes c1 c2 c3 :: "real list"
  defines "fs \<equiv> foldl (\<lambda>acc res. stat_after demo_env False res acc) initial_result_stat
                 [((Some 31, 9, 30), c1), ((None, 9, 40), c2), ((Some 51, 9, 50), c3)]"
  shows "fs (3/10) = Some \<lparr>tp = [31, 51], fp = [], gt = 2\<rparr>"
    and "fs (1/2) = Some \<lparr>tp = [31, 51], fp = [], gt = 2\<rparr>"
    and "fs (7/10) = Some \<lparr>tp = [31, 51], fp = [], gt = 2\<rparr>"
  by (simp_all add: fs_def stat_after_def accumulate_def demo_env_def record_tp_fp_def
      demo_classify_def initial_result_stat_def empty_stat_def)

lemma demo_not_test: "run_test_inference demo_env opt = False"
  by (simp add: run_test_inference_def load_hypes_def demo_env_def demo_hypes_def Let_def
      split: option.splits)

lemma demo_late_values:
  assumes "fusion_method opt = ''late''" and "main demo_env opt old = Inr r"
  shows "ap_30 r = 2 \<and> ap_50 r = 2 \<and> ap_70 r = 2 \<and> comm_rate r = 0"
proof -
  have s: "fusion_method opt \<in> set supported_fusion_methods"
    using assms(1) by (simp add: supported_fusion_methods_def)
  obtain rs r' where rs: "run_results demo_env opt = Inr rs" and m: "main demo_env opt old = Inr r'"
    and f: "final_stat r' =
              foldl (\<lambda>acc res. stat_after demo_env (run_test_inference demo_env opt) res acc)
                initial_result_stat rs"
    and a: "(ap_30 r', ap_50 r', ap_70 r') =
              eval_final_results demo_env (final_stat r') (model_dir opt)"
    and c: "comm_rate r' = mean_comm_rate (concat (map snd rs))"
    using main_supported [OF s, of demo_env old] by blast
  have r: "r' = r" using m assms(2) by simp
  have rs': "rs = [((Some 31, 9, 30), []), ((None, 9, 40), []), ((Some 51, 9, 50), [])]"
    using rs demo_results_late [OF assms(1)] by simp
  have ef: "\<And>fs path. eval_final_results demo_env fs path =
      (demo_count fs (3/10), demo_count fs (1/2), demo_count fs (7/10))"
    by (simp add: demo_env_def)
  have "eval_final_results demo_env (final_stat r') (model_dir opt) = (2, 2, 2)"
    unfolding f rs' demo_not_test ef
    using demo_stat_values [of "[]" "[]" "[]"] by (simp add: demo_count_def)
  then show ?thesis
    using a c r rs' by (simp add: mean_comm_rate_values)
qed

section \<open>The claims about \<open>main\<close>\<close>

text \<open>
  Claim C2. A frame whose pipeline returns \<open>None\<close> as the predicted boxes is skipped by
  the loop: the iteration ends without touching \<open>result_stat\<close> (no \<open>tp\<close>, \<open>fp\<close> or \<open>gt\<close>
  of any threshold changes) and without writing a file, and the loop goes on with the
  next frame and the next index. Such frames contribute nothing to any AP: the
  accumulator and the three AP values of a run are those of the same run with these
  frames removed from the loader.
\<close>

theorem none_prediction_frame_is_skipped:
  assumes "no_prediction env (fusion_method opt) model ds b"
  shows "(\<exists>st'. process_frame env opt hyp ti lh model ds i b st = Inr st' \<and>
            result_stat st' = result_stat st \<and> artifacts st' = artifacts st \<and>
            inference_loop env opt hyp ti lh model ds i (b # rest) st =
              inference_loop env opt hyp ti lh model ds (Suc i) rest st') \<and>
         map_sum id (\<lambda>r. (final_stat r, ap_30 r, ap_50 r, ap_70 r)) (main env opt old) =
         map_sum id (\<lambda>r. (final_stat r, ap_30 r, ap_50 r, ap_70 r))
           (main (env\<lparr>data_loader := \<lambda>d.
                    filter (\<lambda>b. \<not> no_prediction env (fusion_method opt) (run_model env opt) d b)
                      (data_loader env d)\<rparr>) opt old)"
proof
  obtain s g cs where r: "fusion_result env (fusion_method opt) model ds b = Inr ((None, s, g), cs)"
    using assms by (auto simp add: no_prediction_def split: sum.splits prod.splits option.splits)
  have "process_frame env opt hyp ti lh model ds i b st =
      Inr \<lparr>result_stat = result_stat st, total_comm_rates = total_comm_rates st @ cs,
           artifacts = artifacts st\<rparr>"
    using r by (simp add: process_frame_eq stat_after_None frame_artifacts_def)
  then show "\<exists>st'. process_frame env opt hyp ti lh model ds i b st = Inr st' \<and>
            result_stat st' = result_stat st \<and> artifacts st' = artifacts st \<and>
            inference_loop env opt hyp ti lh model ds i (b # rest) st =
              inference_loop env opt hyp ti lh model ds (Suc i) rest st'"
    by simp
next
  let ?env' = "env\<lparr>data_loader := \<lambda>d.
                    filter (\<lambda>b. \<not> no_prediction env (fusion_method opt) (run_model env opt) d b)
                      (data_loader env d)\<rparr>"
  let ?proj = "\<lambda>r::('a, 'e) run_result. (final_stat r, ap_30 r, ap_50 r, ap_70 r)"
  show "map_sum id ?proj (main env opt old) = map_sum id ?proj (main ?env' opt old)"
  proof (cases "fusion_method opt \<in> set supported_fusion_methods")
    case False
    then show ?thesis by (simp add: main_unsupported)
  next
    case True
    obtain rs r where rs: "run_results env opt = Inr rs" and m: "main env opt old = Inr r"
      and f: "final_stat r = foldl (\<lambda>acc res. stat_after env (run_test_inference env opt) res acc)
                initial_result_stat rs"
      and a: "(ap_30 r, ap_50 r, ap_70 r) = eval_final_results env (final_stat r) (model_dir opt)"
      using main_supported [OF True, of env old] by blast
    obtain rs' r' where rs': "run_results ?env' opt = Inr rs'" and m': "main ?env' opt old = Inr r'"
      and f': "final_stat r' =
                 foldl (\<lambda>acc res. stat_after ?env' (run_test_inference ?env' opt) res acc)
                   initial_result_stat rs'"
      and a': "(ap_30 r', ap_50 r', ap_70 r') =
                 eval_final_results ?env' (final_stat r') (model_dir opt)"
      using main_supported [OF True, of ?env' old] by blast
    have e: "rs' = filter (\<lambda>r. fst (fst r) \<noteq> None) rs"
      using rs' frame_results_filter [OF rs [unfolded run_results_def]]
      by (simp add: run_results_def run_frames_def)
    have "final_stat r' =
        foldl (\<lambda>acc res. stat_after env (run_test_inference env opt) res acc)
          initial_result_stat rs'"
      using f' by simp
    also have "\<dots> = foldl (\<lambda>acc res. stat_after env (run_test_inference env opt) res acc)
          initial_result_stat rs"
      unfolding e by (rule foldl_stat_after_filter)
    finally have "final_stat r' = final_stat r"
      using f by simp
    then show ?thesis
      using m m' a a' by (simp add: prod_eq_iff)
  qed
qed

theorem none_prediction_frame_is_skipped_witness:
  "no_prediction demo_env (fusion_method (demo_opt ''late'')) () ()
     \<lparr>sample_idx = 4, origin_lidar = 40, content = ()\<rparr> \<and>
   map_sum id (\<lambda>r. (final_stat r, ap_30 r, ap_50 r, ap_70 r))
     (main demo_env (demo_opt ''late'') []) =
   map_sum id (\<lambda>r. (final_stat r, ap_30 r, ap_50 r, ap_70 r))
     (main (demo_env\<lparr>data_loader := \<lambda>d.
              filter (\<lambda>b. \<not> no_prediction demo_env (fusion_method (demo_opt ''late''))
                               (run_model demo_env (demo_opt ''late'')) d b)
                (data_loader demo_env d)\<rparr>) (demo_opt ''late'') [])"
proof -
  have h: "no_prediction demo_env (fusion_method (demo_opt ''late'')) () ()
     \<lparr>sample_idx = 4, origin_lidar = 40, content = ()\<rparr>"
    by (simp add: no_prediction_def fusion_result_modes demo_opt_def demo_env_def
        demo_pipeline_def)
  show ?thesis
    using h none_prediction_frame_is_skipped [where old = "[]", OF h, THEN conjunct2]
    by simp
qed




text \<open>
  Claim C4. A run that passes the start-up check appends exactly one message to
  \<open>result.txt\<close>: one line, ended by a newline, with the fields in the order \<open>Epoch\<close>,
  \<open>AP @0.3\<close>, \<open>AP @0.5\<close>, \<open>AP @0.7\<close>, \<open>comm_rate\<close>, the AP values of the final
  accumulator printed with 4 decimals and the communication rate with 6. The field
  \<open>comm_thre\<close> (4 decimals) follows exactly when a communication threshold was given on
  the command line. No field brings a line break of its own as long as the text of the
  epoch identifier has none, and every number is printed as an optional sign, integer
  digits, a point and the stated count of fraction digits.
\<close>

theorem report_line_appended:
  assumes "fusion_method opt \<in> set supported_fusion_methods"
  shows "\<exists>r line. main env opt old = Inr r \<and>
           (ap_30 r, ap_50 r, ap_70 r) = eval_final_results env (final_stat r) (model_dir opt) \<and>
           line =
             ''Epoch: '' @ fst (load_model env opt (load_hypes env opt)) @
             '' | AP @0.3: '' @ format_f 4 (ap_30 r) @
             '' | AP @0.5: '' @ format_f 4 (ap_50 r) @
             '' | AP @0.7: '' @ format_f 4 (ap_70 r) @
             '' | comm_rate: '' @ format_f 6 (comm_rate r) @
             (case comm_thre opt of
                None \<Rightarrow> []
              | Some thre \<Rightarrow> '' | comm_thre: '' @ format_f 4 thre) \<and>
           result_txt r = old @ line @ [CHR 0x0A] \<and>
           (CHR 0x0A \<notin> set (fst (load_model env opt (load_hypes env opt))) \<longrightarrow>
              CHR 0x0A \<notin> set line) \<and>
           (\<forall>n x. 0 < n \<longrightarrow>
              (\<exists>ip fr. format_f n x = (if x < 0 then ''-'' else []) @ ip @ ''.'' @ fr \<and>
                 ip \<noteq> [] \<and> length fr = n \<and> set (ip @ fr) \<subseteq> set ''0123456789''))"
proof -
  obtain r where m: "main env opt old = Inr r"
    and a: "(ap_30 r, ap_50 r, ap_70 r) = eval_final_results env (final_stat r) (model_dir opt)"
    and t: "result_txt r = old @ report_line opt
                         (fst (load_model env opt (load_hypes env opt)))
                         (ap_30 r) (ap_50 r) (ap_70 r) (comm_rate r)"
    using main_supported [OF assms, of env old] by blast
  define line where "line =
             ''Epoch: '' @ fst (load_model env opt (load_hypes env opt)) @
             '' | AP @0.3: '' @ format_f 4 (ap_30 r) @
             '' | AP @0.5: '' @ format_f 4 (ap_50 r) @
             '' | AP @0.7: '' @ format_f 4 (ap_70 r) @
             '' | comm_rate: '' @ format_f 6 (comm_rate r) @
             (case comm_thre opt of
                None \<Rightarrow> []
              | Some thre \<Rightarrow> '' | comm_thre: '' @ format_f 4 thre)"
  have rt: "result_txt r = old @ line @ [CHR 0x0A]"
    using t by (cases "comm_thre opt") (simp_all add: report_line_def line_def)
  have nl: "CHR 0x0A \<notin> set (fst (load_model env opt (load_hypes env opt))) \<longrightarrow>
              CHR 0x0A \<notin> set line"
    by (cases "comm_thre opt") (simp_all add: line_def format_f_no_newline)
  have sh: "\<forall>n x. 0 < n \<longrightarrow>
              (\<exists>ip fr. format_f n x = (if x < 0 then ''-'' else []) @ ip @ ''.'' @ fr \<and>
                 ip \<noteq> [] \<and> length fr = n \<and> set (ip @ fr) \<subseteq> set ''0123456789'')"
    using format_f_shape by blast
  show ?thesis
    using m a rt nl sh line_def by blast
qed

theorem report_line_appended_witness:
  "fusion_method ((demo_opt ''late'')\<lparr>comm_thre := Some (1/4)\<rparr>)
     \<in> set supported_fusion_methods \<and>
   (\<exists>r. main demo_env ((demo_opt ''late'')\<lparr>comm_thre := Some (1/4)\<rparr>) ''old'' = Inr r \<and>
     result_txt r =
       ''oldEpoch: 30 | AP @0.3: 2.0000 | AP @0.5: 2.0000 | AP @0.7: 2.0000 | comm_rate: 0.000000 | comm_thre: 0.2500'' @
       [CHR 0x0A]) \<and>
   (\<exists>r. main demo_env (demo_opt ''late'') [] = Inr r \<and>
     result_txt r =
       ''Epoch: 30 | AP @0.3: 2.0000 | AP @0.5: 2.0000 | AP @0.7: 2.0000 | comm_rate: 0.000000'' @
       [CHR 0x0A])"
proof -
  let ?opt' = "(demo_opt ''late'')\<lparr>comm_thre := Some (1/4)\<rparr>"
  have l: "fusion_method (demo_opt ''late'') = ''late''" and l': "fusion_method ?opt' = ''late''"
    by (simp_all add: demo_opt_def)
  have s': "fusion_method ?opt' \<in> set supported_fusion_methods"
    by (simp add: demo_opt_def supported_fusion_methods_def)
  have e: "fst (load_model demo_env (demo_opt ''late'') (load_hypes demo_env (demo_opt ''late''))) = ''30''"
    and e': "fst (load_model demo_env ?opt' (load_hypes demo_env ?opt')) = ''30''"
    by (simp_all add: load_model_def demo_env_def demo_opt_def)
  have c: "comm_thre (demo_opt ''late'') = None" and c': "comm_thre ?opt' = Some (1/4)"
    by (simp_all add: demo_opt_def)
  obtain r line where m: "main demo_env (demo_opt ''late'') [] = Inr r"
    and t: "result_txt r = [] @ line @ [CHR 0x0A]"
    and ln: "line =
             ''Epoch: '' @ fst (load_model demo_env (demo_opt ''late'')
                                  (load_hypes demo_env (demo_opt ''late''))) @
             '' | AP @0.3: '' @ format_f 4 (ap_30 r) @
             '' | AP @0.5: '' @ format_f 4 (ap_50 r) @
             '' | AP @0.7: '' @ format_f 4 (ap_70 r) @
             '' | comm_rate: '' @ format_f 6 (comm_rate r) @
             (case comm_thre (demo_opt ''late'') of
                None \<Rightarrow> []
              | Some thre \<Rightarrow> '' | comm_thre: '' @ format_f 4 thre)"
    using report_line_appended [OF demo_late_supported, of demo_env "[]"] by blast
  obtain r' line' where m': "main demo_env ?opt' ''old'' = Inr r'"
    and t': "result_txt r' = ''old'' @ line' @ [CHR 0x0A]"
    and ln': "line' =
             ''Epoch: '' @ fst (load_model demo_env ?opt' (load_hypes demo_env ?opt')) @
             '' | AP @0.3: '' @ format_f 4 (ap_30 r') @
             '' | AP @0.5: '' @ format_f 4 (ap_50 r') @
             '' | AP @0.7: '' @ format_f 4 (ap_70 r') @
             '' | comm_rate: '' @ format_f 6 (comm_rate r') @
             (case comm_thre ?opt' of
                None \<Rightarrow> []
              | Some thre \<Rightarrow> '' | comm_thre: '' @ format_f 4 thre)"
    using report_line_appended [OF s', of demo_env "''old''"] by blast
  have 1: "result_txt r =
       ''Epoch: 30 | AP @0.3: 2.0000 | AP @0.5: 2.0000 | AP @0.7: 2.0000 | comm_rate: 0.000000'' @
       [CHR 0x0A]"
    using demo_late_values [OF l m] t
    unfolding ln e c by (simp add: format_f_values)
  have 2: "result_txt r' =
       ''oldEpoch: 30 | AP @0.3: 2.0000 | AP @0.5: 2.0000 | AP @0.7: 2.0000 | comm_rate: 0.000000 | comm_thre: 0.2500'' @
       [CHR 0x0A]"
    using demo_late_values [OF l' m'] t'
    unfolding ln' e' c' by (simp add: format_f_values)
  show ?thesis
    using s' m 1 m' 2 by blast
qed

text \<open>
  Claim C6. A fusion method outside \<open>late\<close>, \<open>early\<close>, \<open>intermediate\<close>,
  \<open>intermediate_with_comm\<close>, \<open>no\<close> fails the assertion that \<open>main\<close> makes first, whatever
  the configuration, the data and the pipelines are: nothing is loaded and no frame is
  fetched. For a method in the list the run ends normally, and the loop never raises the
  per-frame \<open>NotImplementedError\<close>, on any frames and from any state.
\<close>

theorem unsupported_fusion_method_rejected_at_startup:
  "(fusion_method opt \<notin> set supported_fusion_methods \<longrightarrow>
      main env opt old = Inl AssertionError) \<and>
   (fusion_method opt \<in> set supported_fusion_methods \<longrightarrow>
      (\<exists>r. main env opt old = Inr r) \<and>
      (\<forall>hyp ti lh model ds i bs st.
         inference_loop env opt hyp ti lh model ds i bs st \<noteq> Inl NotImplementedError))"
proof (intro conjI impI allI)
  assume "fusion_method opt \<notin> set supported_fusion_methods"
  then show "main env opt old = Inl AssertionError" by (rule main_unsupported)
next
  assume s: "fusion_method opt \<in> set supported_fusion_methods"
  show "\<exists>r. main env opt old = Inr r"
    using main_supported [OF s, of env old] by blast
next
  fix hyp ti lh model ds i bs st
  assume s: "fusion_method opt \<in> set supported_fusion_methods"
  show "inference_loop env opt hyp ti lh model ds i bs st \<noteq> Inl NotImplementedError"
    using inference_loop_supported [OF s, of env hyp ti lh model ds i bs st] by auto
qed

theorem unsupported_fusion_method_rejected_at_startup_witness:
  "fusion_method (demo_opt ''average'') \<notin> set supported_fusion_methods \<and>
   main demo_env (demo_opt ''average'') [] = Inl AssertionError \<and>
   fusion_method (demo_opt ''late'') \<in> set supported_fusion_methods \<and>
   (\<exists>r. main demo_env (demo_opt ''late'') [] = Inr r)"
  using unsupported_fusion_method_rejected_at_startup [of "demo_opt ''average''" demo_env "[]"]
    unsupported_fusion_method_rejected_at_startup [of "demo_opt ''late''" demo_env "[]"]
  by (simp add: demo_opt_def supported_fusion_methods_def)

text \<open>
  Claim C5, as the code has it. The accumulator starts with exactly the thresholds 0.3,
  0.5 and 0.7, each with empty \<open>tp\<close> and \<open>fp\<close> lists and \<open>gt = 0\<close>. When the path of the
  test directory does not contain \<open>test.json\<close>, the state of each of the three
  thresholds at the end of the loop is its initial state after exactly one update per
  frame with a prediction, in loader order: the flags and the ground-truth count that
  the classification of that frame at that threshold yields. Frames without a
  prediction change nothing, no other key appears, and the AP values are computed from
  this final accumulator, after the loop. \<open>caluclate_tp_fp\<close> is the function modelled from
  the specification.
\<close>

theorem accumulator_updated_once_per_threshold:
  fixes env :: "('t, 'c, 'm, 'd, 'e) collaborators"
    and classify :: "'t \<Rightarrow> 't \<Rightarrow> 't \<Rightarrow> real \<Rightarrow> 'e list \<times> 'e list \<times> int"
  assumes "fusion_method opt \<in> set supported_fusion_methods"
    and "\<not> str_contains ''test.json'' (test_dir (load_yaml env opt))"
  shows "dom (initial_result_stat :: 'e result_stat) = {3/10, 1/2, 7/10} \<and>
         (\<forall>t \<in> {3/10, 1/2, 7/10}.
            (initial_result_stat :: 'e result_stat) t = Some \<lparr>tp = [], fp = [], gt = 0\<rparr>) \<and>
         (\<exists>r. main (env\<lparr>caluclate_tp_fp := record_tp_fp classify\<rparr>) opt old = Inr r \<and>
            dom (final_stat r) = {3/10, 1/2, 7/10} \<and>
            (\<forall>t \<in> {3/10, 1/2, 7/10}.
               final_stat r t =
                 Some (foldl (\<lambda>e b.
                          case pipeline_output env (fusion_method opt) b
                                 (run_model env opt) (run_dataset env opt) of
                            (Some p, s, g) \<Rightarrow>
                              (case classify p s g t of
                                 (tps, fps, n) \<Rightarrow>
                                   \<lparr>tp = tp e @ tps, fp = fp e @ fps, gt = gt e + n\<rparr>)
                          | (None, s, g) \<Rightarrow> e)
                        \<lparr>tp = [], fp = [], gt = 0\<rparr> (run_frames env opt))) \<and>
            (ap_30 r, ap_50 r, ap_70 r) =
              eval_final_results env (final_stat r) (model_dir opt))"
proof (intro conjI)
  show "dom (initial_result_stat :: 'e result_stat) = {3/10, 1/2, 7/10}"
    by (rule initial_result_stat_dom)
  show "\<forall>t \<in> {3/10, 1/2, 7/10}.
            (initial_result_stat :: 'e result_stat) t = Some \<lparr>tp = [], fp = [], gt = 0\<rparr>"
    using initial_result_stat_values [where ?'e = 'e] by blast
  let ?env = "env\<lparr>caluclate_tp_fp := record_tp_fp classify\<rparr>"
  let ?out = "\<lambda>b. pipeline_output env (fusion_method opt) b (run_model env opt)
                    (run_dataset env opt)"
  let ?upd = "\<lambda>t e (res :: ('t option \<times> 't \<times> 't) \<times> real list).
      case res of
        ((Some p, s, g), cs) \<Rightarrow>
          (case classify p s g t of
             (tps, fps, n) \<Rightarrow> \<lparr>tp = tp e @ tps, fp = fp e @ fps, gt = gt e + n\<rparr>)
      | ((None, s, g), cs) \<Rightarrow> e"
  let ?step = "\<lambda>t e b.
      case ?out b of
        (Some p, s, g) \<Rightarrow>
          (case classify p s g t of
             (tps, fps, n) \<Rightarrow> \<lparr>tp = tp e @ tps, fp = fp e @ fps, gt = gt e + n\<rparr>)
      | (None, s, g) \<Rightarrow> e"
  have ti: "run_test_inference ?env opt = False"
    using assms(2) by (simp add: run_test_inference_def test_dir_load_hypes)
  obtain rs r where rs: "run_results ?env opt = Inr rs" and m: "main ?env opt old = Inr r"
    and f: "final_stat r = foldl (\<lambda>acc res. stat_after ?env (run_test_inference ?env opt) res acc)
              initial_result_stat rs"
    and a: "(ap_30 r, ap_50 r, ap_70 r) = eval_final_results ?env (final_stat r) (model_dir opt)"
    using main_supported [OF assms(1), of ?env old] by blast
  have rs': "rs = map (\<lambda>b. (?out b, comm_samples env (fusion_method opt) (run_model env opt)
                               (run_dataset env opt) [b])) (run_frames env opt)"
    using rs frame_results_pipeline [OF assms(1), of env "run_model env opt"
        "run_dataset env opt" "run_frames env opt"]
    by (simp add: run_results_def)
  have fin: "final_stat r =
      [3/10 \<mapsto> foldl (?upd (3/10)) \<lparr>tp = [], fp = [], gt = 0\<rparr> rs,
       1/2 \<mapsto> foldl (?upd (1/2)) \<lparr>tp = [], fp = [], gt = 0\<rparr> rs,
       7/10 \<mapsto> foldl (?upd (7/10)) \<lparr>tp = [], fp = [], gt = 0\<rparr> rs]"
    unfolding f ti
    by (rule foldl_record_per_threshold)
       (simp_all add: initial_result_stat_values initial_result_stat_dom)
  have st: "\<And>t e. foldl (?upd t) e rs = foldl (?step t) e (run_frames env opt)"
    unfolding rs' foldl_map_fun by (simp split: prod.splits option.splits)
  have v: "final_stat r (3/10) = Some (foldl (?step (3/10)) \<lparr>tp = [], fp = [], gt = 0\<rparr>
                (run_frames env opt))"
    "final_stat r (1/2) = Some (foldl (?step (1/2)) \<lparr>tp = [], fp = [], gt = 0\<rparr>
                (run_frames env opt))"
    "final_stat r (7/10) = Some (foldl (?step (7/10)) \<lparr>tp = [], fp = [], gt = 0\<rparr>
                (run_frames env opt))"
    unfolding fin st by simp_all
  have d: "dom (final_stat r) = {3/10, 1/2, 7/10}"
    unfolding fin by (simp only: dom_fun_upd option.simps if_False dom_empty) blast
  have a': "(ap_30 r, ap_50 r, ap_70 r) = eval_final_results env (final_stat r) (model_dir opt)"
    using a by simp
  show "\<exists>r. main ?env opt old = Inr r \<and>
            dom (final_stat r) = {3/10, 1/2, 7/10} \<and>
            (\<forall>t \<in> {3/10, 1/2, 7/10}. final_stat r t =
                 Some (foldl (?step t) \<lparr>tp = [], fp = [], gt = 0\<rparr> (run_frames env opt))) \<and>
            (ap_30 r, ap_50 r, ap_70 r) =
              eval_final_results env (final_stat r) (model_dir opt)"
    using m d v a' by blast
qed

theorem accumulator_updated_once_per_threshold_witness:
  "fusion_method (demo_opt ''late'') \<in> set supported_fusion_methods \<and>
   \<not> str_contains ''test.json'' (test_dir (load_yaml demo_env (demo_opt ''late''))) \<and>
   (\<exists>r. main demo_env (demo_opt ''late'') [] = Inr r \<and>
      final_stat r (3/10) = Some \<lparr>tp = [31, 51], fp = [], gt = 2\<rparr> \<and>
      final_stat r (1/2) = Some \<lparr>tp = [31, 51], fp = [], gt = 2\<rparr> \<and>
      final_stat r (7/10) = Some \<lparr>tp = [31, 51], fp = [], gt = 2\<rparr>)"
proof -
  let ?opt = "demo_opt ''late''"
  have n: "\<not> str_contains ''test.json'' (test_dir (load_yaml demo_env ?opt))"
    by (simp add: demo_env_def demo_hypes_def)
  have e: "demo_env\<lparr>caluclate_tp_fp := record_tp_fp demo_classify\<rparr> = demo_env"
    by (simp add: demo_env_def)
  have ev: "\<And>t. foldl (\<lambda>e b.
                  case pipeline_output demo_env (fusion_method ?opt) b
                         (run_model demo_env ?opt) (run_dataset demo_env ?opt) of
                    (Some p, s, g) \<Rightarrow>
                      (case demo_classify p s g t of
                         (tps, fps, n) \<Rightarrow> \<lparr>tp = tp e @ tps, fp = fp e @ fps, gt = gt e + n\<rparr>)
                  | (None, s, g) \<Rightarrow> e)
                \<lparr>tp = [], fp = [], gt = 0\<rparr> (run_frames demo_env ?opt) =
              \<lparr>tp = [31, 51], fp = [], gt = 2\<rparr>"
    by (simp add: demo_opt_def run_frames_def run_dataset_def pipeline_output_def demo_env_def
        demo_frames_def demo_pipeline_def demo_classify_def)
  obtain r where m: "main demo_env ?opt [] = Inr r"
    and v: "\<forall>t \<in> {3/10, 1/2, 7/10}. final_stat r t = Some \<lparr>tp = [31, 51], fp = [], gt = 2\<rparr>"
    using accumulator_updated_once_per_threshold
            [OF demo_late_supported n, of demo_classify "[]"]
    unfolding e ev by blast
  have "final_stat r (3/10) = Some \<lparr>tp = [31, 51], fp = [], gt = 2\<rparr>"
    "final_stat r (1/2) = Some \<lparr>tp = [31, 51], fp = [], gt = 2\<rparr>"
    "final_stat r (7/10) = Some \<lparr>tp = [31, 51], fp = [], gt = 2\<rparr>"
    using v by blast+
  then show ?thesis
    using demo_late_supported n m by blast
qed

text \<open>
  Claim C5 as stated fails on a test directory whose path contains \<open>test.json\<close>: the
  first and the third frame of the run below have predictions and are processed (their
  files are written), yet the final accumulator is the initial one, although one round
  of \<open>caluclate_tp_fp\<close> calls would have changed the entry of threshold 0.5.
\<close>

theorem accumulation_gated_counterexample:
  "map_sum id final_stat (main demo_env_test (demo_opt ''late'') []) = Inr initial_result_stat \<and>
   map_sum id saved (main demo_env_test (demo_opt ''late'') []) =
     Inr [SavedPredictionGt 31 9 30 30 3 ''logs/m/npy'',
          Visualized 31 30 30 [0, 100] ''logs/m/vis_3d/3d_00003.png'' ''3d'' False,
          Visualized 31 30 30 [0, 100] ''logs/m/vis_bev/bev_00003.png'' ''bev'' False,
          SavedPredictionGt 51 9 50 50 5 ''logs/m/npy''] \<and>
   accumulate demo_env_test 31 9 30 initial_result_stat (1/2) =
     Some \<lparr>tp = [31], fp = [], gt = 1\<rparr> \<and>
   (initial_result_stat :: nat result_stat) (1/2) = Some \<lparr>tp = [], fp = [], gt = 0\<rparr>"
proof -
  have ti: "run_test_inference demo_env_test (demo_opt ''late'')"
    by (simp add: run_test_inference_def load_hypes_def demo_env_test_def demo_env_def
        demo_opt_def demo_hypes_def)
  have fs: "initial_result_stat =
      foldl (\<lambda>acc res. stat_after demo_env_test
                (run_test_inference demo_env_test (demo_opt ''late'')) res acc)
        initial_result_stat [((Some 31, 9, 30), []), ((None, 9, 40), []), ((Some 51, 9, 50), [])]"
    using ti by (simp add: stat_after_def)
  have aps: "eval_final_results demo_env_test initial_result_stat (model_dir (demo_opt ''late'')) =
      (0, 0, 0)"
    by (simp add: demo_env_test_def demo_env_def demo_count_def initial_result_stat_def
        empty_stat_def)
  note m = main_eq [OF demo_late_supported demo_test_results fs aps, of "[]"]
  have r4: "replicate 4 CHR ''0'' = ''0000''"
    by (simp add: numeral_eq_Suc)
  have sv: "loop_artifacts (demo_opt ''late'') (load_hypes demo_env_test (demo_opt ''late''))
       (str_contains ''OPV2V'' (test_dir (load_hypes demo_env_test (demo_opt ''late'')))) 0
       (zip (run_frames demo_env_test (demo_opt ''late''))
          [((Some 31, 9, 30), []), ((None, 9, 40), []), ((Some 51, 9, 50), [])]) =
     [SavedPredictionGt 31 9 30 30 3 ''logs/m/npy'',
      Visualized 31 30 30 [0, 100] ''logs/m/vis_3d/3d_00003.png'' ''3d'' False,
      Visualized 31 30 30 [0, 100] ''logs/m/vis_bev/bev_00003.png'' ''bev'' False,
      SavedPredictionGt 51 9 50 50 5 ''logs/m/npy'']"
    by (simp add: run_frames_def run_dataset_def load_hypes_def frame_artifacts_def
        visualizations_def os_path_join_def format_05d_def zero_pad_def r4 dec_digits.simps
        demo_env_test_def demo_env_def demo_opt_def demo_frames_def demo_hypes_def)
  have acc: "accumulate demo_env_test 31 9 30 initial_result_stat (1/2) =
     Some \<lparr>tp = [31], fp = [], gt = 1\<rparr>"
    by (simp add: accumulate_def demo_env_test_def demo_env_def record_tp_fp_def
        demo_classify_def initial_result_stat_def empty_stat_def)
  have ini: "(initial_result_stat :: nat result_stat) (1/2) = Some \<lparr>tp = [], fp = [], gt = 0\<rparr>"
    by (simp add: initial_result_stat_def empty_stat_def)
  show ?thesis
    using m sv acc ini by simp
qed

text \<open>
  Claim C7. Take a run that passes the start-up check and give its frames other
  identifiers, everything else being the same (in particular the pipelines return for a
  re-identified frame what they return for the frame). The accumulator, the three AP
  values, the mean communication rate and the report line are the same in both runs. The
  identifier only enters the saved-prediction call and the two visualization paths.
\<close>

theorem frame_identifiers_do_not_influence_evaluation:
  assumes "fusion_method opt \<in> set supported_fusion_methods"
    and "length ids = length (run_frames env opt)"
    and "\<forall>b \<in> set (run_frames env opt). \<forall>k.
           fusion_result env (fusion_method opt) (run_model env opt) (run_dataset env opt)
             (b\<lparr>sample_idx := k\<rparr>) =
           fusion_result env (fusion_method opt) (run_model env opt) (run_dataset env opt) b"
  shows "\<exists>r r'. main env opt old = Inr r \<and>
           main (env\<lparr>data_loader := \<lambda>d. map2 (\<lambda>b k. b\<lparr>sample_idx := k\<rparr>)
                                             (data_loader env d) ids\<rparr>) opt old = Inr r' \<and>
           final_stat r' = final_stat r \<and>
           ap_30 r' = ap_30 r \<and> ap_50 r' = ap_50 r \<and> ap_70 r' = ap_70 r \<and>
           comm_rate r' = comm_rate r \<and> result_txt r' = result_txt r"
proof -
  let ?env' = "env\<lparr>data_loader := \<lambda>d. map2 (\<lambda>b k. b\<lparr>sample_idx := k\<rparr>)
                                             (data_loader env d) ids\<rparr>"
  obtain rs r where rs: "run_results env opt = Inr rs" and m: "main env opt old = Inr r"
    and f: "final_stat r = foldl (\<lambda>acc res. stat_after env (run_test_inference env opt) res acc)
              initial_result_stat rs"
    and a: "(ap_30 r, ap_50 r, ap_70 r) = eval_final_results env (final_stat r) (model_dir opt)"
    and c: "comm_rate r = mean_comm_rate (concat (map snd rs))"
    and t: "result_txt r = old @ report_line opt
                     (fst (load_model env opt (load_hypes env opt)))
                     (ap_30 r) (ap_50 r) (ap_70 r) (comm_rate r)"
    using main_supported [OF assms(1), of env old] by blast
  obtain rs' r' where rs': "run_results ?env' opt = Inr rs'" and m': "main ?env' opt old = Inr r'"
    and f': "final_stat r' =
               foldl (\<lambda>acc res. stat_after ?env' (run_test_inference ?env' opt) res acc)
                 initial_result_stat rs'"
    and a': "(ap_30 r', ap_50 r', ap_70 r') =
               eval_final_results ?env' (final_stat r') (model_dir opt)"
    and c': "comm_rate r' = mean_comm_rate (concat (map snd rs'))"
    and t': "result_txt r' = old @ report_line opt
                     (fst (load_model ?env' opt (load_hypes ?env' opt)))
                     (ap_30 r') (ap_50 r') (ap_70 r') (comm_rate r')"
    using main_supported [OF assms(1), of ?env' old] by blast
  have "run_results ?env' opt = run_results env opt"
    using frame_results_reidentified [OF assms(3) assms(2)]
    by (simp add: run_results_def run_frames_def)
  then have e: "rs' = rs" using rs rs' by simp
  have fs: "final_stat r' = final_stat r" using f f' e by simp
  have aps: "ap_30 r' = ap_30 r \<and> ap_50 r' = ap_50 r \<and> ap_70 r' = ap_70 r"
    using a a' fs by (simp add: prod_eq_iff)
  have cr: "comm_rate r' = comm_rate r" using c c' e by simp
  have "result_txt r' = result_txt r" using t t' aps cr by simp
  then show ?thesis using m m' fs aps cr by blast
qed

theorem frame_identifiers_do_not_influence_evaluation_witness:
  "fusion_method (demo_opt ''intermediate_with_comm'') \<in> set supported_fusion_methods \<and>
   length [100, 200, 300 :: int] =
     length (run_frames demo_env (demo_opt ''intermediate_with_comm'')) \<and>
   (\<exists>r r'. main demo_env (demo_opt ''intermediate_with_comm'') [] = Inr r \<and>
      main (demo_env\<lparr>data_loader := \<lambda>d. map2 (\<lambda>b k. b\<lparr>sample_idx := k\<rparr>)
                                            (data_loader demo_env d) [100, 200, 300]\<rparr>)
        (demo_opt ''intermediate_with_comm'') [] = Inr r' \<and>
      final_stat r' = final_stat r \<and>
      ap_30 r' = ap_30 r \<and> ap_50 r' = ap_50 r \<and> ap_70 r' = ap_70 r \<and>
      comm_rate r' = comm_rate r \<and> result_txt r' = result_txt r)"
proof -
  let ?opt = "demo_opt ''intermediate_with_comm''"
  have l: "length [100, 200, 300 :: int] = length (run_frames demo_env ?opt)"
    by (simp add: run_frames_def demo_env_def demo_frames_def)
  have i: "\<forall>b \<in> set (run_frames demo_env ?opt). \<forall>k.
           fusion_result demo_env (fusion_method ?opt) (run_model demo_env ?opt)
             (run_dataset demo_env ?opt) (b\<lparr>sample_idx := k\<rparr>) =
           fusion_result demo_env (fusion_method ?opt) (run_model demo_env ?opt)
             (run_dataset demo_env ?opt) b"
    by (simp add: demo_opt_def fusion_result_modes demo_env_def demo_pipeline_def)
  show ?thesis
    using demo_comm_supported l
      frame_identifiers_do_not_influence_evaluation [OF demo_comm_supported l i, of "[]"]
    by simp
qed

text \<open>
  Claim C8. Under \<open>intermediate_with_comm\<close> the communication rate of a frame is appended
  to \<open>total_comm_rates\<close> before the test for a \<open>None\<close> prediction: the iteration of a
  frame without prediction returns the state with that one sample appended and nothing
  else changed. When such a frame is among the frames of the run, its sample stands at
  its place in the list that the reported rate averages: the rate is the \<open>float32\<close> sum
  of the samples of the frames before it, its own sample and the samples of the frames
  after it, divided by the number of all frames.
\<close>

theorem comm_rate_sample_kept_for_skipped_frame:
  assumes "fusion_method opt = ''intermediate_with_comm''"
    and "inference_intermediate_fusion_withcomm env b model ds = (None, s, g, c)"
  shows "process_frame env opt hyp ti lh model ds i b st =
           Inr (st\<lparr>total_comm_rates := total_comm_rates st @ [c]\<rparr>) \<and>
         (model = run_model env opt \<and> ds = run_dataset env opt \<and>
          run_frames env opt = pre @ b # post \<longrightarrow>
            (\<exists>r. main env opt old = Inr r \<and>
               comm_rate r =
                 f32_div
                   (foldl f32_add 0
                      (map (\<lambda>b. case inference_intermediate_fusion_withcomm env b model ds of
                                  (p, s, g, c) \<Rightarrow> c) pre @
                       c # map (\<lambda>b. case inference_intermediate_fusion_withcomm env b model ds of
                                      (p, s, g, c) \<Rightarrow> c) post))
                   (length pre + 1 + length post)))"
proof (intro conjI impI)
  have "fusion_result env (fusion_method opt) model ds b = Inr ((None, s, g), [c])"
    using assms by (simp add: fusion_result_modes)
  then show "process_frame env opt hyp ti lh model ds i b st =
           Inr (st\<lparr>total_comm_rates := total_comm_rates st @ [c]\<rparr>)"
    by (cases st) (simp add: process_frame_eq stat_after_None frame_artifacts_def)
next
  assume h: "model = run_model env opt \<and> ds = run_dataset env opt \<and>
          run_frames env opt = pre @ b # post"
  have sup: "fusion_method opt \<in> set supported_fusion_methods"
    using assms(1) by (simp add: supported_fusion_methods_def)
  obtain r where m: "main env opt old = Inr r"
    using main_supported [OF sup, of env old] by blast
  let ?k = "\<lambda>b. case inference_intermediate_fusion_withcomm env b model ds of
                  (p, s, g, c) \<Rightarrow> c"
  have "comm_samples env (fusion_method opt) (run_model env opt) (run_dataset env opt)
          (run_frames env opt) = map ?k pre @ c # map ?k post"
    using h assms by (simp add: comm_samples_def)
  then have "comm_rate r =
      f32_div (foldl f32_add 0 (map ?k pre @ c # map ?k post)) (length pre + 1 + length post)"
    using main_comm_rate [OF sup m] by (simp add: mean_comm_rate_def)
  then show "\<exists>r. main env opt old = Inr r \<and>
               comm_rate r =
                 f32_div (foldl f32_add 0 (map ?k pre @ c # map ?k post))
                   (length pre + 1 + length post)"
    using m by blast
qed

theorem comm_rate_sample_kept_for_skipped_frame_witness:
  "fusion_method (demo_opt ''intermediate_with_comm'') = ''intermediate_with_comm'' \<and>
   inference_intermediate_fusion_withcomm demo_env
     \<lparr>sample_idx = 4, origin_lidar = 40, content = ()\<rparr> () () = (None, 9, 40, 1) \<and>
   run_frames demo_env (demo_opt ''intermediate_with_comm'') =
     [\<lparr>sample_idx = 3, origin_lidar = 30, content = ()\<rparr>] @
     \<lparr>sample_idx = 4, origin_lidar = 40, content = ()\<rparr> #
     [\<lparr>sample_idx = 5, origin_lidar = 50, content = ()\<rparr>] \<and>
   process_frame demo_env (demo_opt ''intermediate_with_comm'') demo_hypes False False () () 1
     \<lparr>sample_idx = 4, origin_lidar = 40, content = ()\<rparr>
     \<lparr>result_stat = initial_result_stat, total_comm_rates = [1/4], artifacts = []\<rparr> =
     Inr \<lparr>result_stat = initial_result_stat, total_comm_rates = [1/4, 1], artifacts = []\<rparr> \<and>
   (\<exists>r. main demo_env (demo_opt ''intermediate_with_comm'') [] = Inr r \<and>
      comm_rate r = f32_div (foldl f32_add 0 [1/4, 1, 1/4]) 3 \<and> comm_rate r = 1/2) \<and>
   f32_div (foldl f32_add 0 [1/4, 1/4]) 2 = 1/4"
proof -
  let ?opt = "demo_opt ''intermediate_with_comm''"
  let ?b = "\<lparr>sample_idx = 4, origin_lidar = 40, content = ()\<rparr> :: (nat, unit) batch"
  let ?pre = "[\<lparr>sample_idx = 3, origin_lidar = 30, content = ()\<rparr>] :: (nat, unit) batch list"
  let ?post = "[\<lparr>sample_idx = 5, origin_lidar = 50, content = ()\<rparr>] :: (nat, unit) batch list"
  have f: "fusion_method ?opt = ''intermediate_with_comm''"
    by (simp add: demo_opt_def)
  have n: "inference_intermediate_fusion_withcomm demo_env ?b () () = (None, 9, 40, 1)"
    by (simp add: demo_env_def demo_pipeline_def)
  have fr: "run_frames demo_env ?opt = ?pre @ ?b # ?post"
    by (simp add: run_frames_def demo_env_def demo_frames_def)
  have k: "map (\<lambda>b. case inference_intermediate_fusion_withcomm demo_env b () () of
                    (p, s, g, c) \<Rightarrow> c) ?pre = [1/4]"
    "map (\<lambda>b. case inference_intermediate_fusion_withcomm demo_env b () () of
                    (p, s, g, c) \<Rightarrow> c) ?post = [1/4]"
    by (simp_all add: demo_env_def demo_pipeline_def)
  note t = comm_rate_sample_kept_for_skipped_frame [OF f n, of demo_hypes False False 1
        "\<lparr>result_stat = initial_result_stat, total_comm_rates = [1/4], artifacts = []\<rparr>"
        ?pre ?post "[]"]
  have p: "process_frame demo_env ?opt demo_hypes False False () () 1 ?b
     \<lparr>result_stat = initial_result_stat, total_comm_rates = [1/4], artifacts = []\<rparr> =
     Inr \<lparr>result_stat = initial_result_stat, total_comm_rates = [1/4, 1], artifacts = []\<rparr>"
    using t [THEN conjunct1] by simp
  have h: "() = run_model demo_env ?opt \<and> () = run_dataset demo_env ?opt \<and>
      run_frames demo_env ?opt = ?pre @ ?b # ?post"
    using fr by simp
  have L: "length ?pre + 1 + length ?post = 3" by simp
  obtain r where m: "main demo_env ?opt [] = Inr r"
    and c: "comm_rate r =
      f32_div (foldl f32_add 0
         (map (\<lambda>b. case inference_intermediate_fusion_withcomm demo_env b () () of
                    (p, s, g, c) \<Rightarrow> c) ?pre @
          1 # map (\<lambda>b. case inference_intermediate_fusion_withcomm demo_env b () () of
                    (p, s, g, c) \<Rightarrow> c) ?post))
        (length ?pre + 1 + length ?post)"
    using t [THEN conjunct2, rule_format, OF h] by blast
  have c3: "comm_rate r = f32_div (foldl f32_add 0 [1/4, 1, 1/4]) 3"
    using c unfolding k L by simp
  have E: "f32_div (foldl f32_add 0 [1/4, 1, 1/4]) 3 = 1/2"
    by (simp add: f32_div_def f32_add_def f32_round_values)
  have q: "\<exists>r. main demo_env ?opt [] = Inr r \<and>
      comm_rate r = f32_div (foldl f32_add 0 [1/4, 1, 1/4]) 3 \<and> comm_rate r = 1/2"
    using m c3 E by auto
  have w: "f32_div (foldl f32_add 0 [1/4, 1/4]) 2 = 1/4"
  proof -
    have "f32_round 2 = of_int 8388608 * (1 / 4194304)"
      by (rule f32_round_pos [where e = 1])
         (simp_all add: f32_exponent_def pow2_def round_half_even_def Let_def)
    then have "f32_round 2 = 2" by simp
    then show ?thesis
      by (simp add: f32_div_def f32_add_def f32_round_values)
  qed
  show ?thesis
    using f n fr p q w by blast
qed

text \<open>
  Claim C9. When the path of the configured test directory contains \<open>test.json\<close>, a run
  that passes the start-up check ends with the accumulator as it was created, and the
  AP values of the report line are computed from that empty accumulator. The rest goes
  on as usual: the reported rate is the \<open>float32\<close> mean of one sample per frame under
  \<open>intermediate_with_comm\<close>; for every frame with a prediction the prediction is saved
  when \<open>save_npy\<close> is set and the 3d and bev visualizations are written while the loop
  index is below \<open>save_vis_n\<close>, in loader order; one report line is appended.
\<close>

theorem test_json_disables_accumulation:
  assumes "fusion_method opt \<in> set supported_fusion_methods"
    and "\<exists>a b. test_dir (load_yaml env opt) = a @ ''test.json'' @ b"
  shows "\<exists>r. main env opt old = Inr r \<and>
           final_stat r = initial_result_stat \<and>
           (ap_30 r, ap_50 r, ap_70 r) =
             eval_final_results env initial_result_stat (model_dir opt) \<and>
           (let hyp = load_yaml env opt;
                model = run_model env opt;
                ds = run_dataset env opt;
                frames = run_frames env opt;
                left_hand = str_contains ''OPV2V'' (test_dir hyp);
                samples =
                  (if fusion_method opt = ''intermediate_with_comm''
                   then map (\<lambda>b. case inference_intermediate_fusion_withcomm env b model ds of
                                   (p, s, g, c) \<Rightarrow> c) frames
                   else [])
            in comm_rate r =
                 (if samples = [] then 0
                  else f32_div (foldl f32_add 0 samples) (length samples)) \<and>
               saved r =
                 concat (map (\<lambda>(i, b).
                    case pipeline_output env (fusion_method opt) b model ds of
                      (None, s, g) \<Rightarrow> []
                    | (Some p, s, g) \<Rightarrow>
                        (if save_npy opt
                         then [SavedPredictionGt p s g (origin_lidar b) (sample_idx b)
                                 (os_path_join (model_dir opt) ''npy'')]
                         else []) @
                        (if save_vis_n opt \<noteq> 0 \<and> int i < save_vis_n opt
                         then [Visualized p g (origin_lidar b) (gt_range hyp)
                                 (os_path_join (model_dir opt)
                                    (''vis_3d/3d_'' @ format_05d (sample_idx b) @ ''.png''))
                                 ''3d'' left_hand,
                               Visualized p g (origin_lidar b) (gt_range hyp)
                                 (os_path_join (model_dir opt)
                                    (''vis_bev/bev_'' @ format_05d (sample_idx b) @ ''.png''))
                                 ''bev'' left_hand]
                         else []))
                   (zip [0..<length frames] frames))) \<and>
           result_txt r =
             old @ ''Epoch: '' @ fst (load_model env opt (load_hypes env opt)) @
             '' | AP @0.3: '' @ format_f 4 (ap_30 r) @
             '' | AP @0.5: '' @ format_f 4 (ap_50 r) @
             '' | AP @0.7: '' @ format_f 4 (ap_70 r) @
             '' | comm_rate: '' @ format_f 6 (comm_rate r) @
             (case comm_thre opt of
                None \<Rightarrow> []
              | Some thre \<Rightarrow> '' | comm_thre: '' @ format_f 4 thre) @
             [CHR 0x0A]"
proof -
  let ?fm = "fusion_method opt"
  let ?model = "run_model env opt"
  let ?ds = "run_dataset env opt"
  let ?frames = "run_frames env opt"
  have ti: "run_test_inference env opt = True"
    using assms(2) by (simp add: run_test_inference_def test_dir_load_hypes str_contains_iff)
  obtain rs r where rs: "run_results env opt = Inr rs" and m: "main env opt old = Inr r"
    and f: "final_stat r = foldl (\<lambda>acc res. stat_after env (run_test_inference env opt) res acc)
              initial_result_stat rs"
    and a: "(ap_30 r, ap_50 r, ap_70 r) = eval_final_results env (final_stat r) (model_dir opt)"
    and sv: "saved r = loop_artifacts opt (load_hypes env opt)
                (str_contains ''OPV2V'' (test_dir (load_hypes env opt))) 0
                (zip (run_frames env opt) rs)"
    and t: "result_txt r = old @ report_line opt
                     (fst (load_model env opt (load_hypes env opt)))
                     (ap_30 r) (ap_50 r) (ap_70 r) (comm_rate r)"
    using main_supported [OF assms(1), of env old] by blast
  have fs: "final_stat r = initial_result_stat"
    using f by (simp add: ti foldl_stat_after_test)
  have aps: "(ap_30 r, ap_50 r, ap_70 r) =
      eval_final_results env initial_result_stat (model_dir opt)"
    using a fs by simp
  have rs': "rs = map (\<lambda>b. (pipeline_output env ?fm b ?model ?ds,
                          comm_samples env ?fm ?model ?ds [b])) ?frames"
    using rs frame_results_pipeline [OF assms(1), of env ?model ?ds ?frames]
    by (simp add: run_results_def)
  have c: "comm_rate r =
      (if comm_samples env ?fm ?model ?ds ?frames = [] then 0
       else f32_div (foldl f32_add 0 (comm_samples env ?fm ?model ?ds ?frames))
              (length (comm_samples env ?fm ?model ?ds ?frames)))"
    using main_comm_rate [OF assms(1) m] by (simp add: mean_comm_rate_def)
  have s: "saved r =
      concat (map (\<lambda>(i, b).
          case pipeline_output env ?fm b ?model ?ds of
            (None, s, g) \<Rightarrow> []
          | (Some p, s, g) \<Rightarrow>
              (if save_npy opt
               then [SavedPredictionGt p s g (origin_lidar b) (sample_idx b)
                       (os_path_join (model_dir opt) ''npy'')]
               else []) @
              (if save_vis_n opt \<noteq> 0 \<and> int i < save_vis_n opt
               then [Visualized p g (origin_lidar b) (gt_range (load_yaml env opt))
                       (os_path_join (model_dir opt)
                          (''vis_3d/3d_'' @ format_05d (sample_idx b) @ ''.png''))
                       ''3d'' (str_contains ''OPV2V'' (test_dir (load_yaml env opt))),
                     Visualized p g (origin_lidar b) (gt_range (load_yaml env opt))
                       (os_path_join (model_dir opt)
                          (''vis_bev/bev_'' @ format_05d (sample_idx b) @ ''.png''))
                       ''bev'' (str_contains ''OPV2V'' (test_dir (load_yaml env opt)))]
               else []))
         (zip [0..<length ?frames] ?frames))"
    unfolding sv rs' loop_artifacts_explicit gt_range_load_hypes test_dir_load_hypes
    by simp
  have rt: "result_txt r =
             old @ ''Epoch: '' @ fst (load_model env opt (load_hypes env opt)) @
             '' | AP @0.3: '' @ format_f 4 (ap_30 r) @
             '' | AP @0.5: '' @ format_f 4 (ap_50 r) @
             '' | AP @0.7: '' @ format_f 4 (ap_70 r) @
             '' | comm_rate: '' @ format_f 6 (comm_rate r) @
             (case comm_thre opt of
                None \<Rightarrow> []
              | Some thre \<Rightarrow> '' | comm_thre: '' @ format_f 4 thre) @
             [CHR 0x0A]"
    using t by (cases "comm_thre opt") (simp_all add: report_line_def)
  show ?thesis
    apply (rule exI [of _ r])
    apply (intro conjI)
        apply (rule m)
       apply (rule fs)
      apply (rule aps)
     apply (unfold Let_def)
     apply (rule conjI)
      apply (rule c [unfolded comm_samples_def])
     apply (rule s)
    apply (rule rt)
    done
qed

theorem test_json_disables_accumulation_witness:
  "fusion_method (demo_opt ''intermediate_with_comm'') \<in> set supported_fusion_methods \<and>
   test_dir (load_yaml demo_env_test (demo_opt ''intermediate_with_comm'')) =
     ''dataset/'' @ ''test.json'' @ [] \<and>
   (\<exists>r. main demo_env_test (demo_opt ''intermediate_with_comm'') [] = Inr r \<and>
      final_stat r = initial_result_stat \<and>
      (ap_30 r, ap_50 r, ap_70 r) = (0, 0, 0) \<and>
      comm_rate r = 1/2 \<and>
      saved r =
        [SavedPredictionGt 31 9 30 30 3 ''logs/m/npy'',
         Visualized 31 30 30 [0, 100] ''logs/m/vis_3d/3d_00003.png'' ''3d'' False,
         Visualized 31 30 30 [0, 100] ''logs/m/vis_bev/bev_00003.png'' ''bev'' False,
         SavedPredictionGt 51 9 50 50 5 ''logs/m/npy''] \<and>
      result_txt r =
        ''Epoch: 30 | AP @0.3: 0.0000 | AP @0.5: 0.0000 | AP @0.7: 0.0000 | comm_rate: 0.500000'' @
        [CHR 0x0A])"
proof -
  let ?opt = "demo_opt ''intermediate_with_comm''"
  have t: "test_dir (load_yaml demo_env_test ?opt) = ''dataset/'' @ ''test.json'' @ []"
    by (simp add: demo_env_test_def demo_env_def demo_hypes_def)
  then have e: "\<exists>a b. test_dir (load_yaml demo_env_test ?opt) = a @ ''test.json'' @ b"
    by blast
  have aps: "eval_final_results demo_env_test initial_result_stat (model_dir ?opt) = (0, 0, 0)"
    by (simp add: demo_env_test_def demo_env_def demo_count_def initial_result_stat_def
        empty_stat_def)
  have ep: "fst (load_model demo_env_test ?opt (load_hypes demo_env_test ?opt)) = ''30''"
    by (simp add: load_model_def demo_env_test_def demo_env_def demo_opt_def)
  have ct: "comm_thre ?opt = None"
    by (simp add: demo_opt_def)
  have sm: "(if fusion_method ?opt = ''intermediate_with_comm''
             then map (\<lambda>b. case inference_intermediate_fusion_withcomm demo_env_test b
                                   (run_model demo_env_test ?opt) (run_dataset demo_env_test ?opt) of
                             (p, s, g, c) \<Rightarrow> c) (run_frames demo_env_test ?opt)
             else []) = [1/4, 1, 1/4]"
    by (simp add: demo_opt_def run_frames_def run_dataset_def demo_env_test_def demo_env_def
        demo_frames_def demo_pipeline_def)
  have r4: "replicate 4 CHR ''0'' = ''0000''"
    by (simp add: numeral_eq_Suc)
  have ar: "concat (map (\<lambda>(i, b).
          case pipeline_output demo_env_test (fusion_method ?opt) b
                 (run_model demo_env_test ?opt) (run_dataset demo_env_test ?opt) of
            (None, s, g) \<Rightarrow> []
          | (Some p, s, g) \<Rightarrow>
              (if save_npy ?opt
               then [SavedPredictionGt p s g (origin_lidar b) (sample_idx b)
                       (os_path_join (model_dir ?opt) ''npy'')]
               else []) @
              (if save_vis_n ?opt \<noteq> 0 \<and> int i < save_vis_n ?opt
               then [Visualized p g (origin_lidar b) (gt_range (load_yaml demo_env_test ?opt))
                       (os_path_join (model_dir ?opt)
                          (''vis_3d/3d_'' @ format_05d (sample_idx b) @ ''.png''))
                       ''3d'' (str_contains ''OPV2V'' (test_dir (load_yaml demo_env_test ?opt))),
                     Visualized p g (origin_lidar b) (gt_range (load_yaml demo_env_test ?opt))
                       (os_path_join (model_dir ?opt)
                          (''vis_bev/bev_'' @ format_05d (sample_idx b) @ ''.png''))
                       ''bev'' (str_contains ''OPV2V'' (test_dir (load_yaml demo_env_test ?opt)))]
               else []))
         (zip [0..<length (run_frames demo_env_test ?opt)] (run_frames demo_env_test ?opt))) =
        [SavedPredictionGt 31 9 30 30 3 ''logs/m/npy'',
         Visualized 31 30 30 [0, 100] ''logs/m/vis_3d/3d_00003.png'' ''3d'' False,
         Visualized 31 30 30 [0, 100] ''logs/m/vis_bev/bev_00003.png'' ''bev'' False,
         SavedPredictionGt 51 9 50 50 5 ''logs/m/npy'']"
    by (simp add: demo_opt_def run_frames_def run_dataset_def pipeline_output_def
        demo_env_test_def demo_env_def demo_frames_def demo_pipeline_def demo_hypes_def
        os_path_join_def format_05d_def zero_pad_def r4 dec_digits.simps)
  have E: "f32_div (foldl f32_add 0 [1/4, 1, 1/4]) (length [1/4, 1, 1/4 :: real]) = 1/2"
    by (simp add: f32_div_def f32_add_def f32_round_values)
  obtain r where m: "main demo_env_test ?opt [] = Inr r"
    and fs: "final_stat r = initial_result_stat"
    and a: "(ap_30 r, ap_50 r, ap_70 r) = (0, 0, 0)"
    and c: "comm_rate r = 1/2"
    and s: "saved r =
        [SavedPredictionGt 31 9 30 30 3 ''logs/m/npy'',
         Visualized 31 30 30 [0, 100] ''logs/m/vis_3d/3d_00003.png'' ''3d'' False,
         Visualized 31 30 30 [0, 100] ''logs/m/vis_bev/bev_00003.png'' ''bev'' False,
         SavedPredictionGt 51 9 50 50 5 ''logs/m/npy'']"
    and rt: "result_txt r =
             [] @ ''Epoch: '' @ ''30'' @
             '' | AP @0.3: '' @ format_f 4 (ap_30 r) @
             '' | AP @0.5: '' @ format_f 4 (ap_50 r) @
             '' | AP @0.7: '' @ format_f 4 (ap_70 r) @
             '' | comm_rate: '' @ format_f 6 (comm_rate r) @ [] @ [CHR 0x0A]"
    using test_json_disables_accumulation [OF demo_comm_supported e, of "[]"]
    unfolding Let_def sm ar aps ep ct E option.case by auto
  have "result_txt r =
        ''Epoch: 30 | AP @0.3: 0.0000 | AP @0.5: 0.0000 | AP @0.7: 0.0000 | comm_rate: 0.500000'' @
        [CHR 0x0A]"
    using rt a c by (simp add: format_f_values)
  then show ?thesis
    using demo_comm_supported t m fs a c s by blast
qed

end
